theory Spec2Isabelle
  imports Complex_Main "HOL-Library.Word"
begin

unbundle bit_operations_syntax

section \<open>Printer web interface (pappl/printer-webif.c)\<close>

text \<open>
  Run-time failures of the C code that the model keeps as values: an array index outside
  its array, a dereferenced NULL pointer, an integer division by zero and a read past the
  terminator of a string.
\<close>

datatype error = OutOfBounds | NullDereference | DivisionByZero | ReadPastTerminator

subsection \<open>Functions of the C library\<close>

text \<open>
  Strings are C strings without their terminator. Integers are modelled by \<open>int\<close>: the
  code's arithmetic on \<open>int\<close> is taken without overflow, which C leaves undefined.
\<close>

definition isspace :: "char \<Rightarrow> bool" where
  "isspace c = (let n = (of_char c :: nat) in n = 32 \<or> (9 \<le> n \<and> n \<le> 13))"

definition isdigit :: "char \<Rightarrow> bool" where
  "isdigit c = (let n = (of_char c :: nat) in 48 \<le> n \<and> n \<le> 57)"

definition digit_val :: "char \<Rightarrow> nat" where
  "digit_val c = of_char c - 48"

definition digit_char :: "nat \<Rightarrow> char" where
  "digit_char n = char_of (48 + n)"

definition toupper :: "char \<Rightarrow> char" where
  "toupper c = (let n = (of_char c :: nat) in if 97 \<le> n \<and> n \<le> 122 then char_of (n - 32) else c)"

definition tolower :: "char \<Rightarrow> char" where
  "tolower c = (let n = (of_char c :: nat) in if 65 \<le> n \<and> n \<le> 90 then char_of (n + 32) else c)"

definition isxdigit :: "char \<Rightarrow> bool" where
  "isxdigit c = (isdigit c \<or> (let n = (of_char (tolower c) :: nat) in 97 \<le> n \<and> n \<le> 102))"

text \<open>The value of a decimal or hexadecimal digit.\<close>

definition xdigit_val :: "char \<Rightarrow> nat" where
  "xdigit_val c = (if isdigit c then digit_val c else of_char (tolower c) - 87)"

text \<open>\<open>strlcpy(dst, src, size)\<close> and \<open>snprintf(dst, size, ...)\<close> keep \<open>size - 1\<close> characters.\<close>

definition strlcpy :: "string \<Rightarrow> nat \<Rightarrow> string" where
  "strlcpy src dstsize = take (dstsize - 1) src"

definition snprintf :: "nat \<Rightarrow> string \<Rightarrow> string" where
  "snprintf bufsize text = take (bufsize - 1) text"

text \<open>\<open>!strncmp(s, t, n)\<close>\<close>

definition strncmp_eq :: "string \<Rightarrow> string \<Rightarrow> nat \<Rightarrow> bool" where
  "strncmp_eq s t n = (take n s = take n t)"

text \<open>The same comparison without regard to case.\<close>

definition strncasecmp_eq :: "string \<Rightarrow> string \<Rightarrow> nat \<Rightarrow> bool" where
  "strncasecmp_eq s t n = (map tolower (take n s) = map tolower (take n t))"


text \<open>Division and remainder of C, which truncate towards zero.\<close>

definition c_div :: "int \<Rightarrow> int \<Rightarrow> int" where
  "c_div a b = (if (a < 0) = (b < 0) then \<bar>a\<bar> div \<bar>b\<bar> else - (\<bar>a\<bar> div \<bar>b\<bar>))"

definition c_mod :: "int \<Rightarrow> int \<Rightarrow> int" where
  "c_mod a b = a - b * c_div a b"

definition checked_div :: "int \<Rightarrow> int \<Rightarrow> error + int" where
  "checked_div a b = (if b = 0 then Inl DivisionByZero else Inr (c_div a b))"

text \<open>The conversion \<open>%d\<close> of \<open>printf\<close>.\<close>

function dec_nat :: "nat \<Rightarrow> string" where
  "dec_nat n = (if n < 10 then [digit_char n] else dec_nat (n div 10) @ [digit_char (n mod 10)])"
  by pat_completeness auto
termination
  by (relation "measure (\<lambda>n. n)") auto

text \<open>The same conversion for an \<open>int\<close>, whose digits are taken from the \<open>int\<close> itself.\<close>

function dec_digits :: "int \<Rightarrow> string" where
  "dec_digits k =
     (if k < 10 then [digit_char (nat k)]
      else dec_digits (k div 10) @ [digit_char (nat (k mod 10))])"
  by pat_completeness auto
termination
  by (relation "measure (\<lambda>k. nat k)") auto

declare dec_digits.simps [simp del]

definition dec_int :: "int \<Rightarrow> string" where
  "dec_int k = (if k < 0 then CHR ''-'' # dec_digits (- k) else dec_digits k)"

text \<open>
  A run of decimal digits, read into the accumulator; the rest of the input is returned.
\<close>

fun scan_digits :: "string \<Rightarrow> nat \<Rightarrow> nat \<times> string" where
  "scan_digits [] acc = (acc, [])"
| "scan_digits (c # cs) acc =
     (if isdigit c then scan_digits cs (acc * 10 + digit_val c) else (acc, c # cs))"

text \<open>An optional sign: whether it is a minus, and the rest of the input.\<close>

definition scan_sign :: "string \<Rightarrow> bool \<times> string" where
  "scan_sign s =
     (case s of
        [] \<Rightarrow> (False, [])
      | c # cs \<Rightarrow> if c = CHR ''-'' then (True, cs) else if c = CHR ''+'' then (False, cs) else (False, s))"

text \<open>
  A decimal integer as \<open>strtol\<close> and the conversion \<open>%d\<close> of \<open>scanf\<close> read it: white space,
  an optional sign, at least one digit. \<open>None\<close> when there is no digit.
\<close>

definition scan_int :: "string \<Rightarrow> (int \<times> string) option" where
  "scan_int s =
     (let (neg, u) = scan_sign (dropWhile isspace s) in
      case u of
        [] \<Rightarrow> None
      | c # cs \<Rightarrow>
          if isdigit c
          then (let (n, rest) = scan_digits u 0 in Some (if neg then - int n else int n, rest))
          else None)"

definition atoi :: "string \<Rightarrow> int" where
  "atoi s = (case scan_int s of None \<Rightarrow> 0 | Some (n, rest) \<Rightarrow> n)"

text \<open>
  \<open>sscanf(value, "%dx%ddpi", &x, &y)\<close>: the number of values assigned, and \<open>x\<close> and \<open>y\<close>
  after the call. The literal \<open>dpi\<close> after the second number does not change either. C
  returns \<open>EOF\<close> for an input that ends before the first number; as the caller only asks
  whether the result is 1, the model returns 0 there.
\<close>

definition sscanf_dxddpi :: "string \<Rightarrow> int \<Rightarrow> int \<Rightarrow> nat \<times> int \<times> int" where
  "sscanf_dxddpi value x y =
     (case scan_int value of
        None \<Rightarrow> (0, x, y)
      | Some (x', rest) \<Rightarrow>
          (case rest of
             [] \<Rightarrow> (1, x', y)
           | c # rest' \<Rightarrow>
               if c = CHR ''x''
               then (case scan_int rest' of
                       None \<Rightarrow> (1, x', y)
                     | Some (y', rest'') \<Rightarrow> (2, x', y'))
               else (1, x', y)))"

subsection \<open>Floating point of C (\<open>double\<close>)\<close>

text \<open>
  A value of type \<open>double\<close> in the binary64 format of IEC 60559. \<open>Finite neg a\<close> is the
  number of magnitude \<open>a\<close> whose sign bit is \<open>neg\<close>, so \<open>Finite True 0\<close> is minus zero;
  \<open>Infinite neg\<close> is an infinity. The sign and the payload of a NaN are not modelled.
  Expressions are evaluated in the format itself (\<open>FLT_EVAL_METHOD\<close> 0), in the default
  rounding mode.
\<close>

datatype double = Finite bool rat | Infinite bool | NaN

text \<open>
  The number of digits of a positive integer in a base, and with it the exponent \<open>e\<close> of a
  positive number \<open>a\<close> for which \<open>base ^ e \<le> a < base ^ (e + 1)\<close>.
\<close>

function digit_count :: "int \<Rightarrow> int \<Rightarrow> int" where
  "digit_count base n = (if n \<le> 0 \<or> base < 2 then 0 else 1 + digit_count base (n div base))"
  by pat_completeness auto
termination
  by (relation "measure (\<lambda>(base, n). nat n)") (auto simp: int_div_less_self)

declare digit_count.simps [simp del]

definition floor_log :: "int \<Rightarrow> rat \<Rightarrow> int" where
  "floor_log base a =
     (if 1 \<le> a then digit_count base \<lfloor>a\<rfloor> - 1 else - digit_count base (\<lceil>1 / a\<rceil> - 1))"

text \<open>\<open>m\<close> times \<open>base\<close> to the power \<open>e\<close>.\<close>

definition scale_by :: "int \<Rightarrow> rat \<Rightarrow> int \<Rightarrow> rat" where
  "scale_by base m e =
     (if e < 0 then m / of_int base ^ nat (- e) else m * of_int base ^ nat e)"

text \<open>The nearest integer, a half going to the even neighbour.\<close>

definition round_half_even :: "rat \<Rightarrow> int" where
  "round_half_even x =
     (let f = \<lfloor>x\<rfloor>; r = x - of_int f
      in if r < 1 / 2 then f else if 1 / 2 < r then f + 1 else if even f then f else f + 1)"

text \<open>
  The \<open>double\<close> nearest to a number of magnitude \<open>a\<close>: a multiple of \<open>2 ^ q\<close> with at most
  53 bits, where \<open>q\<close> is at least -1074, the exponent of the subnormal numbers. A result of
  \<open>2 ^ 1024\<close> or more is an infinity.
\<close>

definition round_to_double :: "bool \<Rightarrow> rat \<Rightarrow> double" where
  "round_to_double neg a =
     (if a = 0 then Finite neg 0
      else
        (let q = max (floor_log 2 a - 52) (- 1074);
             m = round_half_even (scale_by 2 a (- q))
         in if 971 < q \<or> (q = 971 \<and> 2 ^ 53 \<le> m) then Infinite neg
            else Finite neg (scale_by 2 (of_int m) q)))"

text \<open>The conversion of an \<open>int\<close> to \<open>double\<close>, the product and the quotient.\<close>

definition double_of_int :: "int \<Rightarrow> double" where
  "double_of_int k = round_to_double (k < 0) (of_int \<bar>k\<bar>)"

fun double_mul :: "double \<Rightarrow> double \<Rightarrow> double" where
  "double_mul (Finite s a) (Finite t b) = round_to_double (s \<noteq> t) (a * b)"
| "double_mul (Finite s a) (Infinite t) = (if a = 0 then NaN else Infinite (s \<noteq> t))"
| "double_mul (Infinite s) (Finite t b) = (if b = 0 then NaN else Infinite (s \<noteq> t))"
| "double_mul (Infinite s) (Infinite t) = Infinite (s \<noteq> t)"
| "double_mul NaN y = NaN"
| "double_mul x NaN = NaN"

fun double_div :: "double \<Rightarrow> double \<Rightarrow> double" where
  "double_div (Finite s a) (Finite t b) =
     (if b = 0 then (if a = 0 then NaN else Infinite (s \<noteq> t))
      else round_to_double (s \<noteq> t) (a / b))"
| "double_div (Finite s a) (Infinite t) = Finite (s \<noteq> t) 0"
| "double_div (Infinite s) (Finite t b) = Infinite (s \<noteq> t)"
| "double_div (Infinite s) (Infinite t) = NaN"
| "double_div NaN y = NaN"
| "double_div x NaN = NaN"

text \<open>
  The cast \<open>(int)\<close> of a \<open>double\<close> drops the fraction. C defines the result when it fits
  the 32 bits of an \<open>int\<close>. For any other number, an infinity or a NaN it is whatever
  the platform leaves, which the parameter \<open>undefined_cast\<close> gives.
\<close>

definition int_of_double :: "(double \<Rightarrow> 32 word) \<Rightarrow> double \<Rightarrow> int" where
  "int_of_double undefined_cast d =
     (case d of
        Finite neg a \<Rightarrow>
          (let k = (if neg then - \<lfloor>a\<rfloor> else \<lfloor>a\<rfloor>)
           in if - (2 ^ 31) \<le> k \<and> k < 2 ^ 31 then k else sint (undefined_cast d))
      | Infinite neg \<Rightarrow> sint (undefined_cast d)
      | NaN \<Rightarrow> sint (undefined_cast d))"

text \<open>
  A run of digits of base 10 or 16, read into the accumulator: the number, the count of
  digits read and the rest of the input.
\<close>

fun scan_number :: "int \<Rightarrow> string \<Rightarrow> int \<Rightarrow> nat \<Rightarrow> int \<times> nat \<times> string" where
  "scan_number base [] acc n = (acc, n, [])"
| "scan_number base (c # cs) acc n =
     (if (if base = 16 then isxdigit c else isdigit c)
      then scan_number base cs (acc * base + int (xdigit_val c)) (n + 1)
      else (acc, n, c # cs))"

text \<open>
  Digits with an optional point and more digits, at least one digit in all: the number
  and the rest of the input.
\<close>

definition scan_mantissa :: "int \<Rightarrow> string \<Rightarrow> (rat \<times> string) option" where
  "scan_mantissa base u =
     (let (ip, n, r) = scan_number base u 0 0;
          (fp, k, r') = (case r of
                           [] \<Rightarrow> (0, 0, r)
                         | c # cs \<Rightarrow>
                             if c = CHR ''.'' then scan_number base cs 0 0 else (0, 0, r))
      in if n + k = 0 then None
         else Some (of_int ip + of_int fp / of_int base ^ k, r'))"

text \<open>
  An optional exponent: the marker \<open>e\<close> or \<open>p\<close> in either case, an optional sign and
  decimal digits.
\<close>

definition scan_exponent :: "char \<Rightarrow> string \<Rightarrow> int" where
  "scan_exponent marker s =
     (case s of
        [] \<Rightarrow> 0
      | c # cs \<Rightarrow>
          if tolower c = marker
          then (let (neg, u) = scan_sign cs; (e, n, rest) = scan_number 10 u 0 0
                in if neg then - e else e)
          else 0)"

text \<open>
  \<open>atof\<close>, which is \<open>strtod\<close> in the C locale: white space, an optional sign, then
  \<open>inf\<close> or \<open>nan\<close> in any case, or a hexadecimal number after \<open>0x\<close> with an optional
  binary exponent, or a decimal number with an optional decimal exponent. The result is
  the \<open>double\<close> nearest to the number that the text denotes, as the C libraries of
  IEC 60559 platforms return it, and 0 when the text starts with no number.
\<close>

definition atof :: "string \<Rightarrow> double" where
  "atof s =
     (let (neg, u) = scan_sign (dropWhile isspace s) in
      if strncasecmp_eq u ''inf'' 3 then Infinite neg
      else if strncasecmp_eq u ''nan'' 3 then NaN
      else
        (case (if strncasecmp_eq u ''0x'' 2 then scan_mantissa 16 (drop 2 u) else None) of
           Some (m, r) \<Rightarrow> round_to_double neg (scale_by 2 m (scan_exponent CHR ''p'' r))
         | None \<Rightarrow>
             (case scan_mantissa 10 u of
                Some (m, r) \<Rightarrow> round_to_double neg (scale_by 10 m (scan_exponent CHR ''e'' r))
              | None \<Rightarrow> Finite False 0)))"

subsection \<open>Printer state reasons (\<open>_papplPrinterIteratorWebCallback\<close>)\<close>

text \<open>
  Modelled from the spec: the type \<open>pappl_preason_t\<close> and its enumeration constants are
  declared in the PAPPL header, which is not part of the source file. The type is an
  unsigned bit field. The flags are 1, 2, 4, 8 and so on up to the maximum declared flag,
  and the table \<open>reasons\<close> of the source has one label for each of them, 14 in all.
\<close>

type_synonym pappl_preason_t = "32 word"

definition PAPPL_PREASON_OTHER :: pappl_preason_t where
  "PAPPL_PREASON_OTHER = 0x0001"

definition PAPPL_PREASON_TONER_LOW :: pappl_preason_t where
  "PAPPL_PREASON_TONER_LOW = 0x2000"

definition reasons :: "string list" where
  "reasons =
    [''Other'', ''Cover Open'', ''Tray Missing'', ''Out of Ink'', ''Low Ink'',
     ''Waste Tank Almost Full'', ''Waste Tank Full'', ''Media Empty'', ''Media Jam'',
     ''Media Low'', ''Media Needed'', ''Too Many Jobs'', ''Out of Toner'', ''Low Toner'']"

text \<open>
  The loop \<open>for (i = 0, reason = PAPPL_PREASON_OTHER; reason <= PAPPL_PREASON_TONER_LOW;
  i ++, reason *= 2)\<close>. Every call of \<open>papplClientHTMLPrintf(client, ", %s", reasons[i])\<close>
  appends the text it prints to \<open>out\<close>. The result is \<open>None\<close> when the loop does not
  terminate.
\<close>

partial_function (option) reasons_loop ::
  "pappl_preason_t \<Rightarrow> nat \<Rightarrow> pappl_preason_t \<Rightarrow> string list \<Rightarrow> (error + string list) option"
where
  "reasons_loop printer_reasons i reason out =
    (if reason \<le> PAPPL_PREASON_TONER_LOW then
       (if printer_reasons AND reason \<noteq> 0 then
          (if i < length reasons
           then reasons_loop printer_reasons (i + 1) (reason * 2) (out @ ['', '' @ reasons ! i])
           else Some (Inl OutOfBounds))
        else reasons_loop printer_reasons (i + 1) (reason * 2) out)
     else Some (Inr out))"

declare reasons_loop.simps [code]

definition printer_reasons_text :: "pappl_preason_t \<Rightarrow> (error + string list) option" where
  "printer_reasons_text printer_reasons = reasons_loop printer_reasons 0 PAPPL_PREASON_OTHER []"

text \<open>
  What the specification asks for: the labels of the flags present in the bit mask, in
  ascending flag order, each one printed after a comma.
\<close>

definition present_labels :: "pappl_preason_t \<Rightarrow> string list" where
  "present_labels R = map (\<lambda>i. '', '' @ reasons ! i) (filter (\<lambda>i. bit R i) [0..<14])"

subsection \<open>Data of the printer driver\<close>

text \<open>
  The fields of \<open>pappl_media_col_t\<close>. The fields \<open>source\<close> and \<open>type\<close> of C are
  \<open>media_source\<close> and \<open>media_type\<close> here.
\<close>

record pappl_media_col_t =
  bottom_margin :: int
  left_margin :: int
  left_offset :: int
  right_margin :: int
  size_length :: int
  size_name :: string
  size_width :: int
  media_source :: string
  top_margin :: int
  top_offset :: int
  tracking :: int
  media_type :: string

text \<open>What \<open>memset(..., 0, ...)\<close> leaves in a slot.\<close>

definition zero_media :: pappl_media_col_t where
  "zero_media =
     \<lparr>bottom_margin = 0, left_margin = 0, left_offset = 0, right_margin = 0,
      size_length = 0, size_name = [], size_width = 0, media_source = [],
      top_margin = 0, top_offset = 0, tracking = 0, media_type = []\<rparr>"

text \<open>
  The fields of \<open>pappl_pdriver_data_t\<close> that the modelled code reads or writes. The
  arrays \<open>source\<close>, \<open>media_ready\<close> and \<open>media\<close> are lists as long as the arrays are;
  \<open>num_source\<close> and \<open>num_media\<close> count the entries in use.
\<close>

record pappl_pdriver_data_t =
  orient_default :: int
  color_default :: int
  content_default :: int
  darkness_configured :: int
  darkness_supported :: int
  quality_default :: int
  scaling_default :: int
  speed_default :: int
  sides_default :: int
  x_default :: int
  y_default :: int
  media_default :: pappl_media_col_t
  media_ready :: "pappl_media_col_t list"
  num_source :: int
  source :: "string list"
  bottom_top :: int
  left_right :: int
  num_media :: int
  media :: "string list"

text \<open>
  The submitted form: \<open>form name\<close> is the result of \<open>cupsGetOption(name, num_form, form)\<close>,
  \<open>None\<close> for \<open>NULL\<close>.
\<close>

type_synonym form = "string \<Rightarrow> string option"

subsection \<open>Functions called from other files\<close>

text \<open>
  An entry of the media size table of CUPS (\<open>pwg_media_t\<close>): the PPD name of the size and
  its width and length in units of 1/2540 inch. The field \<open>length\<close> of C is \<open>length_pwg\<close>.
\<close>

record pwg_media_t =
  ppd :: string
  width :: int
  length_pwg :: int

text \<open>
  What the source file uses and does not define is a parameter of the model: the size
  lookup \<open>pwgMediaForPWG\<close> of CUPS (\<open>None\<close> for \<open>NULL\<close>), the keyword lookups of PAPPL and
  CUPS, the conversions \<open>%.2f\<close> and \<open>%g\<close> of \<open>printf\<close>, the \<open>int\<close> that the platform
  leaves for a cast of a \<open>double\<close> that C does not define, and \<open>media_str_size\<close>, the
  size that the PAPPL header gives to the arrays \<open>size_name\<close>, \<open>source\<close> and \<open>type\<close> of
  \<open>pappl_media_col_t\<close>.
\<close>

record externals =
  pwgMediaForPWG :: "string \<Rightarrow> pwg_media_t option"
  papplColorModeValue :: "string \<Rightarrow> int"
  papplContentValue :: "string \<Rightarrow> int"
  papplScalingValue :: "string \<Rightarrow> int"
  papplSidesValue :: "string \<Rightarrow> int"
  papplMediaTrackingValue :: "string \<Rightarrow> int"
  ippEnumValue :: "string \<Rightarrow> string \<Rightarrow> int"
  printf_2f :: "double \<Rightarrow> string"
  printf_g :: "double \<Rightarrow> string"
  undefined_int_cast :: "double \<Rightarrow> 32 word"
  media_str_size :: nat

subsection \<open>Localized keywords (\<open>localize_keyword\<close>)\<close>

text \<open>
  The loop of the last branch, from \<open>buffer + 1\<close> on: a hyphen that is not the last
  character becomes a space and the character after it is capitalised and skipped.
\<close>

fun capitalize_words :: "string \<Rightarrow> string" where
  "capitalize_words [] = []"
| "capitalize_words [c] = [c]"
| "capitalize_words (c # c' # cs) =
     (if c = CHR ''-'' then CHR '' '' # toupper c' # capitalize_words cs
      else c # capitalize_words (c' # cs))"

text \<open>
  The branch for the attribute \<open>media\<close>, once \<open>pwg\<close> points to an entry of the size
  table: a few sizes by name, then millimetres, then inches.
\<close>

definition localize_size :: "externals \<Rightarrow> pwg_media_t \<Rightarrow> nat \<Rightarrow> string" where
  "localize_size X pwg bufsize =
    (if ppd pwg = ''Letter'' then strlcpy ''US Letter'' bufsize
     else if ppd pwg = ''Legal'' then strlcpy ''US Legal'' bufsize
     else if ppd pwg = ''Env10'' then strlcpy ''#10 Envelope'' bufsize
     else if ppd pwg = ''A4'' \<or> ppd pwg = ''A5'' \<or> ppd pwg = ''A6''
       then strlcpy (ppd pwg) bufsize
     else if ppd pwg = ''EnvDL'' then strlcpy ''DL Envelope'' bufsize
     else if c_mod (width pwg) 100 = 0 \<and> c_mod (width pwg) 2540 \<noteq> 0
       then snprintf bufsize
              (dec_int (c_div (width pwg) 100) @ '' x '' @
               dec_int (c_div (length_pwg pwg) 100) @ ''mm'')
     else snprintf bufsize
            (printf_g X (double_div (double_of_int (width pwg)) (Finite False 2540)) @
             '' x '' @
             printf_g X (double_div (double_of_int (length_pwg pwg)) (Finite False 2540)) @
             [CHR 0x22]))"

text \<open>
  The result is the contents of \<open>buffer\<close>, for \<open>bufsize\<close> of at least 1. Two branches can
  fail. The branch for \<open>media\<close> dereferences the result of \<open>pwgMediaForPWG\<close> without a
  test. The branch for \<open>photographic-\<close> prints \<open>keyword + 14\<close>, and the last branch starts
  its loop at \<open>buffer + 1\<close>: each lies behind the terminator when the string ends before.
\<close>

definition localize_keyword :: "externals \<Rightarrow> string \<Rightarrow> string \<Rightarrow> nat \<Rightarrow> error + string" where
  "localize_keyword X attrname keyword bufsize =
    (if keyword = ''bi-level'' then Inr (strlcpy ''B&W (no shading)'' bufsize)
     else if keyword = ''monochrome'' then Inr (strlcpy ''B&W'' bufsize)
     else if keyword = ''main-roll'' then Inr (strlcpy ''Main'' bufsize)
     else if keyword = ''alternate-roll'' then Inr (strlcpy ''Alternate'' bufsize)
     else if keyword = ''labels'' then Inr (strlcpy ''Cut Labels'' bufsize)
     else if keyword = ''labels-continuous'' then Inr (strlcpy ''Continuous Labels'' bufsize)
     else if attrname = ''media-type'' \<and> keyword = ''continuous''
       then Inr (strlcpy ''Continuous Paper'' bufsize)
     else if strncmp_eq keyword ''photographic'' 12 then
       (if 12 < length keyword \<and> keyword ! 12 = CHR ''-'' then
          (if 13 < length keyword
           then Inr (snprintf bufsize
                  (toupper (keyword ! 13) # drop 14 keyword @ '' Photo Paper''))
           else Inl ReadPastTerminator)
        else Inr (strlcpy ''Photo Paper'' bufsize))
     else if keyword = ''stationery'' then Inr (strlcpy ''Plain Paper'' bufsize)
     else if keyword = ''stationery-letterhead'' then Inr (strlcpy ''Letterhead'' bufsize)
     else if keyword = ''one-sided'' then Inr (strlcpy ''Off'' bufsize)
     else if keyword = ''two-sided-long-edge'' then Inr (strlcpy ''On (Portrait)'' bufsize)
     else if keyword = ''two-sided-short-edge'' then Inr (strlcpy ''On (Landscape)'' bufsize)
     else if attrname = ''media'' then
       (case pwgMediaForPWG X keyword of
          None \<Rightarrow> Inl NullDereference
        | Some pwg \<Rightarrow> Inr (localize_size X pwg bufsize))
     else
       (case strlcpy keyword bufsize of
          [] \<Rightarrow> Inl ReadPastTerminator
        | c # cs \<Rightarrow> Inr (toupper c # capitalize_words cs)))"

subsection \<open>Printing defaults from the form (\<open>_papplPrinterWebDefaults\<close>)\<close>

text \<open>One definition for each \<open>if\<close> statement that reads a form variable.\<close>

definition set_orientation_requested :: "form \<Rightarrow> pappl_pdriver_data_t \<Rightarrow> pappl_pdriver_data_t" where
  "set_orientation_requested form data =
     (case form ''orientation-requested'' of
        None \<Rightarrow> data
      | Some value \<Rightarrow> data\<lparr>orient_default := atoi value\<rparr>)"

definition set_print_color_mode ::
  "externals \<Rightarrow> form \<Rightarrow> pappl_pdriver_data_t \<Rightarrow> pappl_pdriver_data_t" where
  "set_print_color_mode X form data =
     (case form ''print-color-mode'' of
        None \<Rightarrow> data
      | Some value \<Rightarrow> data\<lparr>color_default := papplColorModeValue X value\<rparr>)"

definition set_print_content_optimize ::
  "externals \<Rightarrow> form \<Rightarrow> pappl_pdriver_data_t \<Rightarrow> pappl_pdriver_data_t" where
  "set_print_content_optimize X form data =
     (case form ''print-content-optimize'' of
        None \<Rightarrow> data
      | Some value \<Rightarrow> data\<lparr>content_default := papplContentValue X value\<rparr>)"

definition set_print_darkness :: "form \<Rightarrow> pappl_pdriver_data_t \<Rightarrow> pappl_pdriver_data_t" where
  "set_print_darkness form data =
     (case form ''print-darkness'' of
        None \<Rightarrow> data
      | Some value \<Rightarrow> data\<lparr>darkness_configured := atoi value\<rparr>)"

definition set_print_quality ::
  "externals \<Rightarrow> form \<Rightarrow> pappl_pdriver_data_t \<Rightarrow> pappl_pdriver_data_t" where
  "set_print_quality X form data =
     (case form ''print-quality'' of
        None \<Rightarrow> data
      | Some value \<Rightarrow> data\<lparr>quality_default := ippEnumValue X ''print-quality'' value\<rparr>)"

definition set_print_scaling ::
  "externals \<Rightarrow> form \<Rightarrow> pappl_pdriver_data_t \<Rightarrow> pappl_pdriver_data_t" where
  "set_print_scaling X form data =
     (case form ''print-scaling'' of
        None \<Rightarrow> data
      | Some value \<Rightarrow> data\<lparr>scaling_default := papplScalingValue X value\<rparr>)"

definition set_print_speed :: "form \<Rightarrow> pappl_pdriver_data_t \<Rightarrow> pappl_pdriver_data_t" where
  "set_print_speed form data =
     (case form ''print-speed'' of
        None \<Rightarrow> data
      | Some value \<Rightarrow> data\<lparr>speed_default := atoi value * 2540\<rparr>)"

definition set_sides ::
  "externals \<Rightarrow> form \<Rightarrow> pappl_pdriver_data_t \<Rightarrow> pappl_pdriver_data_t" where
  "set_sides X form data =
     (case form ''sides'' of
        None \<Rightarrow> data
      | Some value \<Rightarrow> data\<lparr>sides_default := papplSidesValue X value\<rparr>)"

text \<open>
  \<open>sscanf\<close> stores into \<open>data.x_default\<close> and \<open>data.y_default\<close>; a result of 1 then copies
  \<open>x_default\<close> to \<open>y_default\<close>.
\<close>

definition set_printer_resolution :: "form \<Rightarrow> pappl_pdriver_data_t \<Rightarrow> pappl_pdriver_data_t" where
  "set_printer_resolution form data =
     (case form ''printer-resolution'' of
        None \<Rightarrow> data
      | Some value \<Rightarrow>
          (let (n, x, y) = sscanf_dxddpi value (x_default data) (y_default data);
               data = data\<lparr>x_default := x, y_default := y\<rparr>
           in if n = 1 then data\<lparr>y_default := x_default data\<rparr> else data))"

text \<open>
  The loop \<open>for (i = 0; i < data.num_source; i ++)\<close> that looks for the source named by
  \<open>media-source\<close> and copies its ready media.
\<close>

function media_source_loop ::
  "string \<Rightarrow> nat \<Rightarrow> pappl_pdriver_data_t \<Rightarrow> error + pappl_pdriver_data_t" where
  "media_source_loop value i data =
     (if int i < num_source data then
        (if i < length (source data) then
           (if value = source data ! i then
              (if i < length (media_ready data)
               then Inr (data\<lparr>media_default := media_ready data ! i\<rparr>)
               else Inl OutOfBounds)
            else media_source_loop value (i + 1) data)
         else Inl OutOfBounds)
      else Inr data)"
  by pat_completeness auto
termination
  by (relation "measure (\<lambda>(value, i, data). nat (num_source data) - i)") auto

declare media_source_loop.simps [simp del]

definition set_media_source :: "form \<Rightarrow> pappl_pdriver_data_t \<Rightarrow> error + pappl_pdriver_data_t" where
  "set_media_source form data =
     (case form ''media-source'' of
        None \<Rightarrow> Inr data
      | Some value \<Rightarrow> media_source_loop value 0 data)"

text \<open>The nine statements for the defaults that are numbers, in the order of the source.\<close>

definition set_defaults ::
  "externals \<Rightarrow> form \<Rightarrow> pappl_pdriver_data_t \<Rightarrow> pappl_pdriver_data_t" where
  "set_defaults X form data =
     (let data = set_orientation_requested form data;
          data = set_print_color_mode X form data;
          data = set_print_content_optimize X form data;
          data = set_print_darkness form data;
          data = set_print_quality X form data;
          data = set_print_scaling X form data;
          data = set_print_speed form data;
          data = set_sides X form data
      in set_printer_resolution form data)"

text \<open>
  The driver data that a valid form leaves for \<open>papplPrinterSetPrintDefaults\<close>, from the
  driver data that \<open>papplPrinterGetPrintDriverData\<close> returned.
\<close>

definition papplPrinterWebDefaults ::
  "externals \<Rightarrow> pappl_pdriver_data_t \<Rightarrow> form \<Rightarrow> error + pappl_pdriver_data_t" where
  "papplPrinterWebDefaults X data form = set_media_source form (set_defaults X form data)"

subsection \<open>Ready media from the form (\<open>_papplPrinterWebMedia\<close>)\<close>

text \<open>The name of a form variable, \<open>snprintf(name, sizeof(name), "ready%d-size", i)\<close>.\<close>

definition ready_name :: "nat \<Rightarrow> string \<Rightarrow> string" where
  "ready_name i attr = snprintf 32 (''ready'' @ dec_nat i @ attr)"

text \<open>The size of slot \<open>i\<close>, from the value of \<open>ready<i>-size\<close>.\<close>

definition set_ready_size ::
  "externals \<Rightarrow> pappl_pdriver_data_t \<Rightarrow> form \<Rightarrow> nat \<Rightarrow> string \<Rightarrow>
   pappl_media_col_t \<Rightarrow> pappl_media_col_t" where
  "set_ready_size X data form i value ready =
     (if value = ''custom'' then
        (case (form (ready_name i ''-custom-width''), form (ready_name i ''-custom-length'')) of
           (Some custom_width, Some custom_length) \<Rightarrow>
             ready\<lparr>size_name := snprintf (media_str_size X)
                      (''custom_'' @ source data ! i @ ''_'' @ printf_2f X (atof custom_width) @
                       ''x'' @ printf_2f X (atof custom_length) @ ''in''),
                   size_width :=
                     int_of_double (undefined_int_cast X)
                       (double_mul (Finite False 2540) (atof custom_width)),
                   size_length :=
                     int_of_double (undefined_int_cast X)
                       (double_mul (Finite False 2540) (atof custom_length))\<rparr>
         | _ \<Rightarrow> ready)
      else
        (case pwgMediaForPWG X value of
           Some pwg \<Rightarrow>
             ready\<lparr>size_name := strlcpy value (media_str_size X),
                   size_width := width pwg,
                   size_length := length_pwg pwg\<rparr>
         | None \<Rightarrow> ready))"

text \<open>
  The body of the loop for a slot whose \<open>ready<i>-size\<close> is present: size, source, margins,
  top offset, tracking and type, in this order.
\<close>

definition set_ready_media ::
  "externals \<Rightarrow> pappl_pdriver_data_t \<Rightarrow> form \<Rightarrow> nat \<Rightarrow> string \<Rightarrow>
   pappl_media_col_t \<Rightarrow> pappl_media_col_t" where
  "set_ready_media X data form i value ready =
     (let ready = set_ready_size X data form i value ready;
          ready = ready\<lparr>media_source := strlcpy (source data ! i) (media_str_size X)\<rparr>;
          ready = (if form (ready_name i ''-borderless'') \<noteq> None
                   then ready\<lparr>bottom_margin := 0, top_margin := 0,
                              left_margin := 0, right_margin := 0\<rparr>
                   else ready\<lparr>bottom_margin := bottom_top data, top_margin := bottom_top data,
                              left_margin := left_right data, right_margin := left_right data\<rparr>);
          ready = (case form (ready_name i ''-top-offset'') of
                     None \<Rightarrow> ready
                   | Some value \<Rightarrow>
                       ready\<lparr>top_offset :=
                         int_of_double (undefined_int_cast X)
                           (double_mul (Finite False 100) (atof value))\<rparr>);
          ready = (case form (ready_name i ''-tracking'') of
                     None \<Rightarrow> ready
                   | Some value \<Rightarrow> ready\<lparr>tracking := papplMediaTrackingValue X value\<rparr>)
      in case form (ready_name i ''-type'') of
           None \<Rightarrow> ready
         | Some value \<Rightarrow> ready\<lparr>media_type := strlcpy value (media_str_size X)\<rparr>)"

text \<open>
  The loop \<open>for (i = 0, ready = data.media_ready; i < data.num_source; i ++, ready ++)\<close> on
  the array \<open>data.media_ready\<close>. A slot without \<open>ready<i>-size\<close> is skipped before
  \<open>ready\<close> or \<open>data.source[i]\<close> is used.
\<close>

function ready_loop ::
  "externals \<Rightarrow> pappl_pdriver_data_t \<Rightarrow> form \<Rightarrow> nat \<Rightarrow> pappl_media_col_t list \<Rightarrow>
   error + pappl_media_col_t list" where
  "ready_loop X data form i ready =
     (if int i < num_source data then
        (case form (ready_name i ''-size'') of
           None \<Rightarrow> ready_loop X data form (i + 1) ready
         | Some value \<Rightarrow>
             if i < length ready \<and> i < length (source data)
             then ready_loop X data form (i + 1)
                    (ready[i := set_ready_media X data form i value (ready ! i)])
             else Inl OutOfBounds)
      else Inr ready)"
  by pat_completeness auto
termination
  by (relation "measure (\<lambda>(X, data, form, i, ready). nat (num_source data) - i)") auto

declare ready_loop.simps [simp del]

text \<open>
  The driver data whose ready media a valid form leaves for \<open>papplPrinterSetReadyMedia\<close>:
  \<open>memset\<close> clears every slot of \<open>data.media_ready\<close>, then the loop fills the slots.
\<close>

definition papplPrinterWebMedia ::
  "externals \<Rightarrow> pappl_pdriver_data_t \<Rightarrow> form \<Rightarrow> error + pappl_pdriver_data_t" where
  "papplPrinterWebMedia X data form =
     (case ready_loop X data form 0 (replicate (length (media_ready data)) zero_media) of
        Inl e \<Rightarrow> Inl e
      | Inr ready \<Rightarrow> Inr (data\<lparr>media_ready := ready\<rparr>))"

subsection \<open>Both passes on one form\<close>


subsection \<open>Print darkness choices (\<open>_papplPrinterWebDefaults\<close>)\<close>

text \<open>
  The loop \<open>for (i = 0; i < data.darkness_supported; i ++)\<close> with
  \<open>percent = 100 * i / (data.darkness_supported - 1)\<close>; \<open>out\<close> collects the percentages
  of the options printed.
\<close>

function darkness_loop :: "int \<Rightarrow> nat \<Rightarrow> int list \<Rightarrow> error + int list" where
  "darkness_loop supported i out =
     (if int i < supported then
        (case checked_div (100 * int i) (supported - 1) of
           Inl e \<Rightarrow> Inl e
         | Inr percent \<Rightarrow> darkness_loop supported (i + 1) (out @ [percent]))
      else Inr out)"
  by pat_completeness auto
termination
  by (relation "measure (\<lambda>(supported, i, out). nat supported - i)") auto

declare darkness_loop.simps [simp del]

definition darkness_options :: "pappl_pdriver_data_t \<Rightarrow> error + int list" where
  "darkness_options data =
     (if darkness_supported data \<noteq> 0 then darkness_loop (darkness_supported data) 0 []
      else Inr [])"

subsection \<open>Range of custom sizes (\<open>media_chooser\<close>)\<close>









subsection \<open>An instance for the examples\<close>

text \<open>
  Modelled from the spec: the canonical size registry behind \<open>pwgMediaForPWG\<close> belongs to
  CUPS and is not part of the source file. These are the sizes that the examples use. A
  size keyword spells its dimensions, and the registry gives them in units of 1/2540 inch,
  that is 2540 units to the inch and 100 units to the millimetre. The two range sentinels
  are not sizes by name, and their PPD name is left empty.
\<close>

definition example_sizes :: "(string \<times> pwg_media_t) list" where
  "example_sizes =
     [(''na_letter_8.5x11in'', \<lparr>ppd = ''Letter'', width = 21590, length_pwg = 27940\<rparr>),
      (''na_legal_8.5x14in'', \<lparr>ppd = ''Legal'', width = 21590, length_pwg = 35560\<rparr>),
      (''iso_a4_210x297mm'', \<lparr>ppd = ''A4'', width = 21000, length_pwg = 29700\<rparr>),
      (''iso_b5_176x250mm'', \<lparr>ppd = ''ISOB5'', width = 17600, length_pwg = 25000\<rparr>),
      (''roll_max_8.5x100in'', \<lparr>ppd = [], width = 21590, length_pwg = 254000\<rparr>),
      (''roll_min_2x3in'', \<lparr>ppd = [], width = 5080, length_pwg = 7620\<rparr>)]"

text \<open>
  A keyword table gives the flag \<open>2 ^ i\<close> to its \<open>i\<close>-th keyword and 0 to any other string.
\<close>

fun keyword_flag :: "string list \<Rightarrow> string \<Rightarrow> int" where
  "keyword_flag [] value = 0"
| "keyword_flag (k # ks) value = (if value = k then 1 else 2 * keyword_flag ks value)"

text \<open>
  \<open>%.2f\<close> for the instance: the value rounded to hundredths, a half going to the even
  neighbour, after the sign.
\<close>

definition two_decimals :: "double \<Rightarrow> string" where
  "two_decimals d =
     (case d of
        Finite neg a \<Rightarrow>
          (let n = round_half_even (a * 100)
           in (if neg then ''-'' else []) @ dec_int (n div 100) @ ''.'' @
              [digit_char (nat (n mod 100 div 10)), digit_char (nat (n mod 10))])
      | Infinite neg \<Rightarrow> (if neg then ''-inf'' else ''inf'')
      | NaN \<Rightarrow> ''nan'')"

text \<open>
  \<open>%g\<close> for the instance: six significant digits without trailing zeros, with an
  exponent of at least two digits when the decimal exponent is less than -4 or at least 6.
\<close>

definition strip_zeros :: "string \<Rightarrow> string" where
  "strip_zeros ds = rev (dropWhile (\<lambda>c. c = CHR ''0'') (rev ds))"

definition short_decimals :: "double \<Rightarrow> string" where
  "short_decimals d =
     (case d of
        Finite neg a \<Rightarrow>
          (if neg then ''-'' else []) @
          (if a = 0 then ''0''
           else
             (let e0 = floor_log 10 a;
                  n0 = round_half_even (scale_by 10 a (5 - e0));
                  e = (if n0 = 1000000 then e0 + 1 else e0);
                  ds = dec_int (if n0 = 1000000 then 100000 else n0)
              in if - 4 \<le> e \<and> e < 6 then
                   (if 0 \<le> e then
                      (let fs = strip_zeros (drop (nat e + 1) ds)
                       in take (nat e + 1) ds @ (if fs = [] then [] else ''.'' @ fs))
                    else ''0.'' @ replicate (nat (- e) - 1) CHR ''0'' @ strip_zeros ds)
                 else
                   (let fs = strip_zeros (tl ds); x = dec_int \<bar>e\<bar>
                    in hd ds # (if fs = [] then [] else ''.'' @ fs) @ ''e'' @
                       (if e < 0 then ''-'' else ''+'') @
                       (if length x < 2 then ''0'' @ x else x))))
      | Infinite neg \<Rightarrow> (if neg then ''-inf'' else ''inf'')
      | NaN \<Rightarrow> ''nan'')"

text \<open>
  The parameters for the examples: the sizes above, the keywords of the radio buttons and
  menus of the pages, the two number formats, the \<open>int\<close> of least value for a cast that C
  does not define, as the conversion instruction of x86-64 leaves it, and arrays of 64
  characters. No theorem about every instance depends on it.
\<close>

definition example_externals :: externals where
  "example_externals =
     \<lparr>pwgMediaForPWG = map_of example_sizes,
      papplColorModeValue =
        keyword_flag [''auto'', ''auto-monochrome'', ''bi-level'', ''color'', ''monochrome'',
                      ''process-monochrome''],
      papplContentValue =
        keyword_flag [''auto'', ''graphic'', ''photo'', ''text'', ''text-and-graphic''],
      papplScalingValue = keyword_flag [''auto'', ''auto-fit'', ''fill'', ''fit'', ''none''],
      papplSidesValue =
        keyword_flag [''one-sided'', ''two-sided-long-edge'', ''two-sided-short-edge''],
      papplMediaTrackingValue = keyword_flag [''continuous'', ''mark'', ''web''],
      ippEnumValue =
        (\<lambda>attrname value.
           if attrname = ''print-quality'' \<and> value = ''draft'' then 3
           else if attrname = ''print-quality'' \<and> value = ''normal'' then 4
           else if attrname = ''print-quality'' \<and> value = ''high'' then 5
           else - 1),
      printf_2f = two_decimals,
      printf_g = short_decimals,
      undefined_int_cast = (\<lambda>d. 0x80000000),
      media_str_size = 64\<rparr>"

text \<open>
  A printer with the two sources \<open>tray-1\<close> and \<open>tray-2\<close>. Both slots hold media from an
  earlier configuration, and the fixed margins are not zero.
\<close>

definition stale_media :: pappl_media_col_t where
  "stale_media =
     \<lparr>bottom_margin = 423, left_margin = 423, left_offset = 25, right_margin = 423,
      size_length = 29700, size_name = ''iso_a4_210x297mm'', size_width = 21000,
      media_source = ''tray-9'', top_margin = 423, top_offset = 50, tracking = 2,
      media_type = ''labels''\<rparr>"

definition two_trays :: pappl_pdriver_data_t where
  "two_trays =
     \<lparr>orient_default = 3, color_default = 1, content_default = 1, darkness_configured = 50,
      darkness_supported = 0, quality_default = 4, scaling_default = 1, speed_default = 0,
      sides_default = 1, x_default = 203, y_default = 203,
      media_default = zero_media, media_ready = [stale_media, stale_media],
      num_source = 2, source = [''tray-1'', ''tray-2''],
      bottom_top = 1270, left_right = 635,
      num_media = 2, media = [''na_letter_8.5x11in'', ''iso_a4_210x297mm'']\<rparr>"

text \<open>Forms for the examples, and the slot that the first of them leaves for \<open>tray-1\<close>.\<close>

definition letter_form :: form where
  "letter_form = [''ready0-size'' \<mapsto> ''na_letter_8.5x11in'']"

definition letter_ready :: pappl_media_col_t where
  "letter_ready =
     \<lparr>bottom_margin = 1270, left_margin = 635, left_offset = 0, right_margin = 635,
      size_length = 27940, size_name = ''na_letter_8.5x11in'', size_width = 21590,
      media_source = ''tray-1'', top_margin = 1270, top_offset = 0, tracking = 0,
      media_type = []\<rparr>"

definition custom_form :: "string \<Rightarrow> string \<Rightarrow> form" where
  "custom_form custom_width custom_length =
     [''ready0-size'' \<mapsto> ''custom'', ''ready0-custom-width'' \<mapsto> custom_width,
      ''ready0-custom-length'' \<mapsto> custom_length]"


definition defaults_form :: form where
  "defaults_form =
     [''orientation-requested'' \<mapsto> ''4'', ''print-quality'' \<mapsto> ''high'',
      ''print-speed'' \<mapsto> ''2'', ''sides'' \<mapsto> ''two-sided-long-edge'',
      ''printer-resolution'' \<mapsto> ''300dpi'', ''media-source'' \<mapsto> ''tray-2'']"

section \<open>Properties\<close>

subsection \<open>Printer state reasons\<close>

lemma flag_le_TONER_LOW: "k < 14 \<Longrightarrow> (2::32 word) ^ k \<le> PAPPL_PREASON_TONER_LOW"
proof -
  assume "k < 14"
  then consider "k = 0" | "k = 1" | "k = 2" | "k = 3" | "k = 4" | "k = 5" | "k = 6"
    | "k = 7" | "k = 8" | "k = 9" | "k = 10" | "k = 11" | "k = 12" | "k = 13"
    by (auto simp: less_Suc_eq numeral_eq_Suc)
  then show ?thesis
    by cases (simp_all add: PAPPL_PREASON_TONER_LOW_def)
qed

lemma flag_test_bit: "(R AND (2::32 word) ^ k \<noteq> 0) = bit R k"
  by (simp add: and_exp_eq_0_iff_not_bit)

text \<open>
  The loop invariant: entered at index \<open>k\<close> with the flag \<open>2 ^ k\<close>, the loop ends and
  appends the labels of the flags from \<open>k\<close> on that are set, in ascending order.
\<close>

lemma reasons_loop_from:
  "k \<le> 14 \<Longrightarrow>
   reasons_loop R k (2 ^ k) out =
     Some (Inr (out @ map (\<lambda>i. '', '' @ reasons ! i) (filter (\<lambda>i. bit R i) [k..<14])))"
proof (induction "14 - k" arbitrary: k out)
  case 0
  then have "k = 14" by simp
  then show ?case
    by (subst reasons_loop.simps) (simp add: PAPPL_PREASON_TONER_LOW_def)
next
  case (Suc n)
  then have k: "k < 14" and n: "n = 14 - (k + 1)" and le: "k + 1 \<le> 14" by simp_all
  have len: "k < length reasons" using k by (simp add: reasons_def)
  have step: "(2::32 word) ^ k * 2 = 2 ^ (k + 1)" by simp
  have upt: "[k..<14] = k # [k + 1..<14]" using k by (simp add: upt_conv_Cons)
  show ?case
    apply (subst reasons_loop.simps)
    apply (simp only: flag_le_TONER_LOW [OF k] flag_test_bit len step if_True)
    apply (simp only: Suc.hyps(1) [OF n le] upt)
    apply simp
    done
qed

text \<open>
  Claim C4. For every bit mask of printer state reasons the loop terminates without leaving
  the \<open>reasons\<close> table, and what it prints is exactly the labels of the flags present in
  the mask, in ascending flag order from 1 up to \<open>PAPPL_PREASON_TONER_LOW\<close>; a flag that
  is absent from the mask contributes no label.
\<close>

theorem printer_reasons_text_exact:
  "printer_reasons_text R = Some (Inr (present_labels R))"
  using reasons_loop_from [of 0 R "[]"]
  by (simp add: printer_reasons_text_def present_labels_def PAPPL_PREASON_OTHER_def)

subsection \<open>Print darkness choices\<close>

lemma darkness_loop_from:
  "2 \<le> supported \<Longrightarrow> i \<le> nat supported \<Longrightarrow>
   darkness_loop supported i out =
     Inr (out @ map (\<lambda>i. c_div (100 * int i) (supported - 1)) [i..<nat supported])"
proof (induction supported i out rule: darkness_loop.induct)
  case (1 supported i out)
  show ?case
  proof (cases "int i < supported")
    case True
    then have lt: "i < nat supported" by simp
    have div: "checked_div (100 * int i) (supported - 1) = Inr (c_div (100 * int i) (supported - 1))"
      using "1.prems"(1) by (simp add: checked_div_def)
    have upt: "[i..<nat supported] = i # [i + 1..<nat supported]"
      using lt by (simp add: upt_conv_Cons)
    have "darkness_loop supported (i + 1) (out @ [c_div (100 * int i) (supported - 1)]) =
        Inr ((out @ [c_div (100 * int i) (supported - 1)]) @
          map (\<lambda>i. c_div (100 * int i) (supported - 1)) [i + 1..<nat supported])"
      using "1.IH" [OF True div] "1.prems"(1) lt by simp
    then show ?thesis
      by (subst darkness_loop.simps)
        (simp only: True div upt if_True sum.case list.map append.simps append_assoc)
  next
    case False
    then have "[i..<nat supported] = []" by simp
    with False show ?thesis
      by (subst darkness_loop.simps) simp
  qed
qed

text \<open>
  Claim C9. The darkness menu is printed when \<open>darkness_supported\<close> is not 0, and option
  \<open>i\<close> gets \<open>100 * i / (darkness_supported - 1)\<close> percent. With at least two levels every
  division has a divisor that is not 0 and the menu has one option for each level. With
  exactly one level the guard is passed and the first division divides by zero. With no
  level, or a negative count, nothing is divided.
\<close>

theorem darkness_division:
  "(2 \<le> darkness_supported data \<longrightarrow>
      darkness_options data =
        Inr (map (\<lambda>i. c_div (100 * int i) (darkness_supported data - 1))
               [0..<nat (darkness_supported data)])) \<and>
   (darkness_supported data = 1 \<longrightarrow> darkness_options data = Inl DivisionByZero) \<and>
   (darkness_supported data \<le> 0 \<longrightarrow> darkness_options data = Inr [])"
proof (intro conjI impI)
  assume "2 \<le> darkness_supported data"
  then show "darkness_options data =
        Inr (map (\<lambda>i. c_div (100 * int i) (darkness_supported data - 1))
               [0..<nat (darkness_supported data)])"
    using darkness_loop_from [of "darkness_supported data" 0 "[]"]
    by (simp add: darkness_options_def)
next
  assume "darkness_supported data = 1"
  then show "darkness_options data = Inl DivisionByZero"
    by (simp add: darkness_options_def checked_div_def darkness_loop.simps [of 1 0])
next
  assume "darkness_supported data \<le> 0"
  then show "darkness_options data = Inr []"
    by (simp add: darkness_options_def darkness_loop.simps [of _ 0])
qed

theorem darkness_division_witness:
  "darkness_options (two_trays\<lparr>darkness_supported := 5\<rparr>) = Inr [0, 25, 50, 75, 100] \<and>
   darkness_options (two_trays\<lparr>darkness_supported := 1\<rparr>) = Inl DivisionByZero \<and>
   darkness_options (two_trays\<lparr>darkness_supported := 0\<rparr>) = Inr []"
  using darkness_division [of "two_trays\<lparr>darkness_supported := 5\<rparr>"]
    darkness_division [of "two_trays\<lparr>darkness_supported := 1\<rparr>"]
    darkness_division [of "two_trays\<lparr>darkness_supported := 0\<rparr>"]
  by (simp add: c_div_def upt_rec)

subsection \<open>Localized keywords\<close>

text \<open>
  Claim C10. For the attribute \<open>media\<close> and a keyword that no earlier branch handles, the
  result of \<open>pwgMediaForPWG\<close> is used without a test for \<open>NULL\<close>: a keyword that the size
  table knows gets the label of its size, and any other keyword ends in the dereference of
  a null pointer. The branch that capitalises the keyword is not reached.
\<close>

theorem localize_keyword_media:
  assumes "keyword \<notin> set [''bi-level'', ''monochrome'', ''main-roll'', ''alternate-roll'',
      ''labels'', ''labels-continuous'', ''stationery'', ''stationery-letterhead'',
      ''one-sided'', ''two-sided-long-edge'', ''two-sided-short-edge'']"
    and "\<not> strncmp_eq keyword ''photographic'' 12"
  shows "localize_keyword X ''media'' keyword bufsize =
           (case pwgMediaForPWG X keyword of
              None \<Rightarrow> Inl NullDereference
            | Some pwg \<Rightarrow> Inr (localize_size X pwg bufsize)) \<and>
         (localize_keyword X ''media'' keyword bufsize = Inl NullDereference) =
           (pwgMediaForPWG X keyword = None)"
  using assms by (simp add: localize_keyword_def split: option.splits)

theorem localize_keyword_media_witness:
  "localize_keyword example_externals ''media'' ''na_letter_8.5x11in'' 256 = Inr ''US Letter'' \<and>
   localize_keyword example_externals ''media'' ''iso_b5_176x250mm'' 256 = Inr ''176 x 250mm'' \<and>
   localize_keyword example_externals ''media'' ''unknown-keyword'' 256 = Inl NullDereference"
proof -
  let ?special = "[''bi-level'', ''monochrome'', ''main-roll'', ''alternate-roll'',
      ''labels'', ''labels-continuous'', ''stationery'', ''stationery-letterhead'',
      ''one-sided'', ''two-sided-long-edge'', ''two-sided-short-edge'']"
  have a1: "''na_letter_8.5x11in'' \<notin> set ?special" by simp
  have b1: "\<not> strncmp_eq ''na_letter_8.5x11in'' ''photographic'' 12"
    by (simp add: strncmp_eq_def)
  have a2: "''iso_b5_176x250mm'' \<notin> set ?special" by simp
  have b2: "\<not> strncmp_eq ''iso_b5_176x250mm'' ''photographic'' 12"
    by (simp add: strncmp_eq_def)
  have a3: "''unknown-keyword'' \<notin> set ?special" by simp
  have b3: "\<not> strncmp_eq ''unknown-keyword'' ''photographic'' 12"
    by (simp add: strncmp_eq_def)
  have r1: "(case pwgMediaForPWG example_externals ''na_letter_8.5x11in'' of
               None \<Rightarrow> Inl NullDereference
             | Some pwg \<Rightarrow> Inr (localize_size example_externals pwg 256)) = Inr ''US Letter''"
    by code_simp
  have r2: "(case pwgMediaForPWG example_externals ''iso_b5_176x250mm'' of
               None \<Rightarrow> Inl NullDereference
             | Some pwg \<Rightarrow> Inr (localize_size example_externals pwg 256)) = Inr ''176 x 250mm''"
    by code_simp
  have r3: "pwgMediaForPWG example_externals ''unknown-keyword'' = None"
    by code_simp
  show ?thesis
    using localize_keyword_media [OF a1 b1, of example_externals 256]
      localize_keyword_media [OF a2 b2, of example_externals 256]
      localize_keyword_media [OF a3 b3, of example_externals 256]
    by (simp add: r1 r2 r3)
qed

text \<open>
  Claim C8. The three labels that the specification lists are the ones the code returns.
  A label is not returned for every input. For the attribute \<open>media\<close>, a keyword that the
  size table does not know ends in the dereference of a null pointer. The empty keyword and
  the keyword \<open>photographic-\<close> leave an empty string in the buffer, after a read behind the
  terminator of the string.
\<close>

theorem localize_keyword_examples:
  "localize_keyword example_externals ''media-type'' ''stationery'' 256 = Inr ''Plain Paper'' \<and>
   localize_keyword example_externals ''sides'' ''two-sided-short-edge'' 256 =
     Inr ''On (Landscape)'' \<and>
   localize_keyword example_externals ''media-type'' ''unknown-keyword'' 256 =
     Inr ''Unknown Keyword'' \<and>
   localize_keyword example_externals ''media'' ''unknown-keyword'' 256 = Inl NullDereference \<and>
   localize_keyword example_externals ''media-type'' [] 256 = Inl ReadPastTerminator \<and>
   localize_keyword example_externals ''media-type'' ''photographic-'' 256 =
     Inl ReadPastTerminator"
  by code_simp

subsection \<open>Range of custom sizes\<close>











subsection \<open>Printing defaults from the form\<close>


lemma set_orientation_requested_eq:
  "set_orientation_requested form d =
     d\<lparr>orient_default :=
         (case form ''orientation-requested'' of None \<Rightarrow> orient_default d | Some v \<Rightarrow> atoi v)\<rparr>"
  by (simp add: set_orientation_requested_def split: option.splits)

lemma set_print_color_mode_eq:
  "set_print_color_mode X form d =
     d\<lparr>color_default :=
         (case form ''print-color-mode'' of
            None \<Rightarrow> color_default d | Some v \<Rightarrow> papplColorModeValue X v)\<rparr>"
  by (simp add: set_print_color_mode_def split: option.splits)

lemma set_print_content_optimize_eq:
  "set_print_content_optimize X form d =
     d\<lparr>content_default :=
         (case form ''print-content-optimize'' of
            None \<Rightarrow> content_default d | Some v \<Rightarrow> papplContentValue X v)\<rparr>"
  by (simp add: set_print_content_optimize_def split: option.splits)

lemma set_print_darkness_eq:
  "set_print_darkness form d =
     d\<lparr>darkness_configured :=
         (case form ''print-darkness'' of None \<Rightarrow> darkness_configured d | Some v \<Rightarrow> atoi v)\<rparr>"
  by (simp add: set_print_darkness_def split: option.splits)

lemma set_print_quality_eq:
  "set_print_quality X form d =
     d\<lparr>quality_default :=
         (case form ''print-quality'' of
            None \<Rightarrow> quality_default d | Some v \<Rightarrow> ippEnumValue X ''print-quality'' v)\<rparr>"
  by (simp add: set_print_quality_def split: option.splits)

lemma set_print_scaling_eq:
  "set_print_scaling X form d =
     d\<lparr>scaling_default :=
         (case form ''print-scaling'' of
            None \<Rightarrow> scaling_default d | Some v \<Rightarrow> papplScalingValue X v)\<rparr>"
  by (simp add: set_print_scaling_def split: option.splits)

lemma set_print_speed_eq:
  "set_print_speed form d =
     d\<lparr>speed_default :=
         (case form ''print-speed'' of None \<Rightarrow> speed_default d | Some v \<Rightarrow> atoi v * 2540)\<rparr>"
  by (simp add: set_print_speed_def split: option.splits)

lemma set_sides_eq:
  "set_sides X form d =
     d\<lparr>sides_default :=
         (case form ''sides'' of None \<Rightarrow> sides_default d | Some v \<Rightarrow> papplSidesValue X v)\<rparr>"
  by (simp add: set_sides_def split: option.splits)

lemmas set_scalar_eqs =
  set_orientation_requested_eq set_print_color_mode_eq set_print_content_optimize_eq
  set_print_darkness_eq set_print_quality_eq set_print_scaling_eq set_print_speed_eq
  set_sides_eq

text \<open>What \<open>sscanf\<close> assigns does not depend on the values the variables had.\<close>

lemma sscanf_dxddpi_cases:
  obtains (one) x where "\<And>x0 y0. sscanf_dxddpi value x0 y0 = (1, x, y0)"
  | (two) x y where "\<And>x0 y0. sscanf_dxddpi value x0 y0 = (2, x, y)"
  | (none) "\<And>x0 y0. sscanf_dxddpi value x0 y0 = (0, x0, y0)"
proof (cases "scan_int value")
  case None
  then have "\<And>x0 y0. sscanf_dxddpi value x0 y0 = (0, x0, y0)"
    by (simp add: sscanf_dxddpi_def)
  then show ?thesis by (rule none)
next
  case (Some p)
  obtain x rest where p: "p = (x, rest)" by (cases p)
  show ?thesis
  proof (cases rest)
    case Nil
    with Some p have "\<And>x0 y0. sscanf_dxddpi value x0 y0 = (1, x, y0)"
      by (simp add: sscanf_dxddpi_def)
    then show ?thesis by (rule one)
  next
    case (Cons c rest')
    show ?thesis
    proof (cases "c = CHR ''x''")
      case False
      with Some p Cons have "\<And>x0 y0. sscanf_dxddpi value x0 y0 = (1, x, y0)"
        by (simp add: sscanf_dxddpi_def)
      then show ?thesis by (rule one)
    next
      case True
      show ?thesis
      proof (cases "scan_int rest'")
        case None
        with Some p Cons True have "\<And>x0 y0. sscanf_dxddpi value x0 y0 = (1, x, y0)"
          by (simp add: sscanf_dxddpi_def)
        then show ?thesis by (rule one)
      next
        case (Some q)
        obtain y rest'' where q: "q = (y, rest'')" by (cases q)
        from \<open>scan_int value = Some p\<close> p Cons True Some q
        have "\<And>x0 y0. sscanf_dxddpi value x0 y0 = (2, x, y)"
          by (simp add: sscanf_dxddpi_def)
        then show ?thesis by (rule two)
      qed
    qed
  qed
qed

lemma set_printer_resolution_eq:
  "set_printer_resolution form d =
     d\<lparr>x_default := x_default (set_printer_resolution form d),
       y_default := y_default (set_printer_resolution form d)\<rparr>"
  by (simp add: set_printer_resolution_def Let_def split: option.splits prod.splits)

lemma set_printer_resolution_fields:
  "x_default d' = x_default d \<Longrightarrow> y_default d' = y_default d \<Longrightarrow>
   x_default (set_printer_resolution form d') = x_default (set_printer_resolution form d) \<and>
   y_default (set_printer_resolution form d') = y_default (set_printer_resolution form d)"
  by (simp add: set_printer_resolution_def Let_def split: option.splits prod.splits)


lemma set_defaults_eq:
  "set_defaults X form d =
     d\<lparr>orient_default :=
         (case form ''orientation-requested'' of None \<Rightarrow> orient_default d | Some v \<Rightarrow> atoi v),
       color_default :=
         (case form ''print-color-mode'' of
            None \<Rightarrow> color_default d | Some v \<Rightarrow> papplColorModeValue X v),
       content_default :=
         (case form ''print-content-optimize'' of
            None \<Rightarrow> content_default d | Some v \<Rightarrow> papplContentValue X v),
       darkness_configured :=
         (case form ''print-darkness'' of None \<Rightarrow> darkness_configured d | Some v \<Rightarrow> atoi v),
       quality_default :=
         (case form ''print-quality'' of
            None \<Rightarrow> quality_default d | Some v \<Rightarrow> ippEnumValue X ''print-quality'' v),
       scaling_default :=
         (case form ''print-scaling'' of
            None \<Rightarrow> scaling_default d | Some v \<Rightarrow> papplScalingValue X v),
       speed_default :=
         (case form ''print-speed'' of None \<Rightarrow> speed_default d | Some v \<Rightarrow> atoi v * 2540),
       sides_default :=
         (case form ''sides'' of None \<Rightarrow> sides_default d | Some v \<Rightarrow> papplSidesValue X v),
       x_default := x_default (set_printer_resolution form d),
       y_default := y_default (set_printer_resolution form d)\<rparr>"
  (is "_ = ?e\<lparr>x_default := _, y_default := _\<rparr>")
proof -
  have "set_defaults X form d = set_printer_resolution form ?e"
    by (simp add: set_defaults_def Let_def set_scalar_eqs cong: option.case_cong)
  also have "\<dots> = ?e\<lparr>x_default := x_default (set_printer_resolution form ?e),
      y_default := y_default (set_printer_resolution form ?e)\<rparr>"
    by (rule set_printer_resolution_eq)
  also have "x_default (set_printer_resolution form ?e) = x_default (set_printer_resolution form d)"
    using set_printer_resolution_fields [of ?e d form] by simp
  also have "y_default (set_printer_resolution form ?e) = y_default (set_printer_resolution form d)"
    using set_printer_resolution_fields [of ?e d form] by simp
  finally show ?thesis .
qed



lemma media_source_loop_unfold:
  "media_source_loop value i d =
     (if int i < num_source d then
        (if i < length (source d) then
           (if value = source d ! i then
              (if i < length (media_ready d)
               then Inr (d\<lparr>media_default := media_ready d ! i\<rparr>)
               else Inl OutOfBounds)
            else media_source_loop value (i + 1) d)
         else Inl OutOfBounds)
      else Inr d)"
  by (rule media_source_loop.simps)

lemma media_source_loop_frame:
  "media_source_loop value i d = Inr d' \<Longrightarrow> d' = d\<lparr>media_default := media_default d'\<rparr>"
proof (induction "value" i d rule: media_source_loop.induct)
  case (1 "value" i d)
  show ?case
  proof (cases "int i < num_source d \<and> i < length (source d) \<and> value \<noteq> source d ! i")
    case True
    with "1.prems" have "media_source_loop value (i + 1) d = Inr d'"
      by (simp add: media_source_loop_unfold [of "value" i])
    with True show ?thesis by (intro "1.IH") simp_all
  next
    case False
    with "1.prems" show ?thesis
      by (auto simp: media_source_loop_unfold [of "value" i] split: if_splits)
  qed
qed



lemma papplPrinterWebDefaults_resolution:
  assumes "papplPrinterWebDefaults X data form = Inr data'"
  shows "x_default data' = x_default (set_printer_resolution form data) \<and>
         y_default data' = y_default (set_printer_resolution form data)"
proof -
  let ?S = "set_defaults X form data"
  let ?e = "?S\<lparr>media_default := media_default data'\<rparr>"
  have "?e = data'"
  proof (cases "form ''media-source''")
    case None
    with assms have "data' = ?S"
      by (simp add: papplPrinterWebDefaults_def set_media_source_def)
    then show ?thesis by simp
  next
    case (Some v)
    with assms have "media_source_loop v 0 ?S = Inr data'"
      by (simp add: papplPrinterWebDefaults_def set_media_source_def)
    then show ?thesis by (rule media_source_loop_frame [symmetric])
  qed
  then have "x_default data' = x_default ?e" and "y_default data' = y_default ?e"
    by simp_all
  then show ?thesis
    by (simp add: set_defaults_eq)
qed

text \<open>
  Claim C3. The value of \<open>printer-resolution\<close> is matched against \<open>%dx%ddpi\<close>. When
  the match assigns one number, both the X and the Y default are that number. When it
  assigns two, the X default is the first and the Y default is the second. When it assigns
  none, both defaults keep their values.
\<close>

theorem printer_resolution_defaults:
  assumes "form ''printer-resolution'' = Some value"
    and "sscanf_dxddpi value (x_default data) (y_default data) = (n, x, y)"
    and "papplPrinterWebDefaults X data form = Inr data'"
  shows "(n = 1 \<longrightarrow> x_default data' = x \<and> y_default data' = x) \<and>
         (n = 2 \<longrightarrow> x_default data' = x \<and> y_default data' = y) \<and>
         (n \<noteq> 1 \<and> n \<noteq> 2 \<longrightarrow>
            x_default data' = x_default data \<and> y_default data' = y_default data)"
  using assms(1,2) papplPrinterWebDefaults_resolution [OF assms(3)]
  by (cases "value" rule: sscanf_dxddpi_cases)
    (simp_all add: set_printer_resolution_def Let_def)

theorem printer_resolution_defaults_witness:
  "papplPrinterWebDefaults example_externals two_trays
     [''printer-resolution'' \<mapsto> ''300dpi''] =
     Inr (two_trays\<lparr>x_default := 300, y_default := 300\<rparr>) \<and>
   papplPrinterWebDefaults example_externals two_trays
     [''printer-resolution'' \<mapsto> ''300x600dpi''] =
     Inr (two_trays\<lparr>x_default := 300, y_default := 600\<rparr>) \<and>
   y_default (two_trays\<lparr>x_default := 300, y_default := 300\<rparr>) = 300 \<and>
   y_default (two_trays\<lparr>x_default := 300, y_default := 600\<rparr>) = 600"
proof -
  have s1: "sscanf_dxddpi ''300dpi'' (x_default two_trays) (y_default two_trays) = (1, 300, 203)"
    by code_simp
  have s2: "sscanf_dxddpi ''300x600dpi'' (x_default two_trays) (y_default two_trays) =
      (2, 300, 600)"
    by code_simp
  have d1: "papplPrinterWebDefaults example_externals two_trays
      [''printer-resolution'' \<mapsto> ''300dpi''] =
      Inr (two_trays\<lparr>x_default := 300, y_default := 300\<rparr>)"
    by code_simp
  have d2: "papplPrinterWebDefaults example_externals two_trays
      [''printer-resolution'' \<mapsto> ''300x600dpi''] =
      Inr (two_trays\<lparr>x_default := 300, y_default := 600\<rparr>)"
    by code_simp
  show ?thesis
    using printer_resolution_defaults [OF _ s1 d1] printer_resolution_defaults [OF _ s2 d2]
    by (simp add: d1 d2)
qed

subsection \<open>Ready media from the form\<close>

lemma ready_loop_unfold:
  "ready_loop X data form i ready =
     (if int i < num_source data then
        (case form (ready_name i ''-size'') of
           None \<Rightarrow> ready_loop X data form (i + 1) ready
         | Some value \<Rightarrow>
             if i < length ready \<and> i < length (source data)
             then ready_loop X data form (i + 1)
                    (ready[i := set_ready_media X data form i value (ready ! i)])
             else Inl OutOfBounds)
      else Inr ready)"
  by (rule ready_loop.simps)

text \<open>The slots after the loop, entered at index \<open>i\<close>.\<close>

lemma ready_loop_slots:
  "ready_loop X data form i ready = Inr ready' \<Longrightarrow>
   length ready' = length ready \<and>
   (\<forall>j < length ready.
      ready' ! j =
        (if i \<le> j \<and> int j < num_source data then
           (case form (ready_name j ''-size'') of
              None \<Rightarrow> ready ! j
            | Some value \<Rightarrow> set_ready_media X data form j value (ready ! j))
         else ready ! j))"
proof (induction X data form i ready rule: ready_loop.induct)
  case (1 X data form i ready)
  show ?case
  proof (cases "int i < num_source data")
    case False
    with "1.prems" have "ready' = ready"
      by (simp add: ready_loop_unfold [of X data form i])
    with False show ?thesis by auto
  next
    case lt: True
    show ?thesis
    proof (cases "form (ready_name i ''-size'')")
      case None
      with lt "1.prems" have "ready_loop X data form (i + 1) ready = Inr ready'"
        by (simp add: ready_loop_unfold [of X data form i])
      from "1.IH"(1) [OF lt None this] have len: "length ready' = length ready"
        and nth: "\<And>j. j < length ready \<Longrightarrow> ready' ! j =
          (if i + 1 \<le> j \<and> int j < num_source data then
             (case form (ready_name j ''-size'') of
                None \<Rightarrow> ready ! j
              | Some value \<Rightarrow> set_ready_media X data form j value (ready ! j))
           else ready ! j)"
        by simp_all
      show ?thesis
      proof (intro conjI allI impI)
        show "length ready' = length ready" by (rule len)
      next
        fix j assume j: "j < length ready"
        show "ready' ! j =
          (if i \<le> j \<and> int j < num_source data then
             (case form (ready_name j ''-size'') of
                None \<Rightarrow> ready ! j
              | Some value \<Rightarrow> set_ready_media X data form j value (ready ! j))
           else ready ! j)"
        proof (cases "j = i")
          case True
          with nth [OF j] None show ?thesis by simp
        next
          case False
          then have "(i \<le> j) = (i + 1 \<le> j)" by auto
          with nth [OF j] show ?thesis by simp
        qed
      qed
    next
      case (Some v)
      let ?r = "ready[i := set_ready_media X data form i v (ready ! i)]"
      from lt Some "1.prems" have ok: "i < length ready \<and> i < length (source data)"
        by (simp add: ready_loop_unfold [of X data form i] split: if_splits)
      with lt Some "1.prems" have "ready_loop X data form (i + 1) ?r = Inr ready'"
        by (simp add: ready_loop_unfold [of X data form i])
      from "1.IH"(2) [OF lt Some ok this] have len: "length ready' = length ready"
        and nth: "\<And>j. j < length ready \<Longrightarrow> ready' ! j =
          (if i + 1 \<le> j \<and> int j < num_source data then
             (case form (ready_name j ''-size'') of
                None \<Rightarrow> ?r ! j
              | Some value \<Rightarrow> set_ready_media X data form j value (?r ! j))
           else ?r ! j)"
        by simp_all
      show ?thesis
      proof (intro conjI allI impI)
        show "length ready' = length ready" by (rule len)
      next
        fix j assume j: "j < length ready"
        show "ready' ! j =
          (if i \<le> j \<and> int j < num_source data then
             (case form (ready_name j ''-size'') of
                None \<Rightarrow> ready ! j
              | Some value \<Rightarrow> set_ready_media X data form j value (ready ! j))
           else ready ! j)"
        proof (cases "j = i")
          case True
          with nth [OF j] Some lt ok show ?thesis by simp
        next
          case False
          then have le: "(i \<le> j) = (i + 1 \<le> j)" and rj: "?r ! j = ready ! j" by auto
          from nth [OF j] show ?thesis by (simp only: le rj)
        qed
      qed
    qed
  qed
qed




lemma papplPrinterWebMedia_slot:
  assumes "papplPrinterWebMedia X data form = Inr data'" and "j < length (media_ready data)"
  shows "media_ready data' ! j =
        (if int j < num_source data then
           (case form (ready_name j ''-size'') of
              None \<Rightarrow> zero_media
            | Some value \<Rightarrow> set_ready_media X data form j value zero_media)
         else zero_media)"
proof -
  let ?z = "replicate (length (media_ready data)) zero_media"
  from assms obtain r where loop: "ready_loop X data form 0 ?z = Inr r"
    and d': "data' = data\<lparr>media_ready := r\<rparr>"
    by (auto simp: papplPrinterWebMedia_def split: sum.splits)
  from ready_loop_slots [OF loop] assms(2) show ?thesis
    by (simp add: d' cong: option.case_cong)
qed

subsection \<open>Decoding twice\<close>

text \<open>Both decoders return a result when \<open>num_source\<close> does not exceed the arrays.\<close>

lemma ready_loop_total:
  "num_source data \<le> int (length ready) \<Longrightarrow> num_source data \<le> int (length (source data)) \<Longrightarrow>
   \<exists>ready'. ready_loop X data form i ready = Inr ready'"
proof (induction X data form i ready rule: ready_loop.induct)
  case (1 X data form i ready)
  show ?case
  proof (cases "int i < num_source data")
    case False
    then show ?thesis by (simp add: ready_loop_unfold [of X data form i])
  next
    case lt: True
    with "1.prems" have ok: "i < length ready \<and> i < length (source data)" by simp
    show ?thesis
    proof (cases "form (ready_name i ''-size'')")
      case None
      from "1.IH"(1) [OF lt None "1.prems"] lt None show ?thesis
        by (simp add: ready_loop_unfold [of X data form i])
    next
      case (Some v)
      from "1.IH"(2) [OF lt Some ok] "1.prems" lt Some ok show ?thesis
        by (simp add: ready_loop_unfold [of X data form i])
    qed
  qed
qed

lemma papplPrinterWebMedia_total:
  assumes "num_source data \<le> int (length (media_ready data))"
    and "num_source data \<le> int (length (source data))"
  shows "\<exists>data'. papplPrinterWebMedia X data form = Inr data'"
proof -
  from assms have "\<exists>r. ready_loop X data form 0
      (replicate (length (media_ready data)) zero_media) = Inr r"
    by (intro ready_loop_total) simp_all
  then show ?thesis by (auto simp: papplPrinterWebMedia_def)
qed

lemma papplPrinterWebMedia_frame:
  assumes "papplPrinterWebMedia X data form = Inr data'"
  shows "data\<lparr>media_ready := media_ready data'\<rparr> = data' \<and>
         length (media_ready data') = length (media_ready data)"
proof -
  let ?z = "replicate (length (media_ready data)) zero_media"
  from assms obtain r where loop: "ready_loop X data form 0 ?z = Inr r"
    and d': "data' = data\<lparr>media_ready := r\<rparr>"
    by (auto simp: papplPrinterWebMedia_def split: sum.splits)
  from ready_loop_slots [OF loop] d' show ?thesis by simp
qed

lemma media_source_loop_total:
  "num_source data \<le> int (length (media_ready data)) \<Longrightarrow>
   num_source data \<le> int (length (source data)) \<Longrightarrow>
   \<exists>data'. media_source_loop value i data = Inr data'"
proof (induction "value" i data rule: media_source_loop.induct)
  case (1 "value" i data)
  show ?case
  proof (cases "int i < num_source data \<and> value \<noteq> source data ! i")
    case True
    with "1.prems" have "i < length (source data)" by simp
    with True "1.IH" "1.prems" show ?thesis
      by (simp add: media_source_loop_unfold [of "value" i])
  next
    case False
    with "1.prems" show ?thesis
      by (auto simp: media_source_loop_unfold [of "value" i])
  qed
qed

lemma papplPrinterWebDefaults_total:
  assumes "num_source data \<le> int (length (media_ready data))"
    and "num_source data \<le> int (length (source data))"
  shows "\<exists>data'. papplPrinterWebDefaults X data form = Inr data'"
proof (cases "form ''media-source''")
  case None
  then show ?thesis by (simp add: papplPrinterWebDefaults_def set_media_source_def)
next
  case (Some v)
  have "\<exists>data'. media_source_loop v 0 (set_defaults X form data) = Inr data'"
    using assms by (intro media_source_loop_total) (simp_all add: set_defaults_eq)
  with Some show ?thesis by (simp add: papplPrinterWebDefaults_def set_media_source_def)
qed









subsection \<open>Ready media: sizes and margins\<close>

text \<open>The names of the form variables that the examples use.\<close>

lemma ready_names:
  "ready_name 0 ''-size'' = ''ready0-size''"
  "ready_name 0 ''-custom-width'' = ''ready0-custom-width''"
  "ready_name 0 ''-custom-length'' = ''ready0-custom-length''"
  "ready_name 0 ''-borderless'' = ''ready0-borderless''"
  "ready_name 0 ''-top-offset'' = ''ready0-top-offset''"
  "ready_name 0 ''-tracking'' = ''ready0-tracking''"
  "ready_name 0 ''-type'' = ''ready0-type''"
  "ready_name 1 ''-size'' = ''ready1-size''"
  "ready_name 1 ''-borderless'' = ''ready1-borderless''"
  "ready_name (Suc 0) ''-size'' = ''ready1-size''"
  "ready_name (Suc 0) ''-borderless'' = ''ready1-borderless''"
  by code_simp+

text \<open>
  Claim C1, amended. For the two sources \<open>tray-1\<close> and \<open>tray-2\<close> and a form that holds
  only \<open>ready0-size=na_letter_8.5x11in\<close>, every slot is first cleared, whatever it held.
  The slot of \<open>tray-2\<close> and every slot after it stay cleared: width, length, offsets and
  tracking are 0, and name, source and type are empty. The slot of \<open>tray-1\<close> gets the
  width 21590 and the length 27940 that the size table gives for the size, 8.5 and 11
  inches in units of 1/2540 inch, with the source name and the fixed margins; the two
  names fit the arrays of the slot.
\<close>

theorem ready_media_letter:
  assumes "source data = [''tray-1'', ''tray-2'']" and "num_source data = 2"
    and "2 \<le> length (media_ready data)"
    and "pwgMediaForPWG X ''na_letter_8.5x11in'' = Some pwg"
    and "width pwg = 21590" and "length_pwg pwg = 27940"
    and "19 \<le> media_str_size X"
  shows "papplPrinterWebMedia X data letter_form =
    Inr (data\<lparr>media_ready :=
           zero_media\<lparr>size_name := ''na_letter_8.5x11in'', size_width := 21590,
             size_length := 27940, media_source := ''tray-1'',
             bottom_margin := bottom_top data, top_margin := bottom_top data,
             left_margin := left_right data, right_margin := left_right data\<rparr> #
           replicate (length (media_ready data) - 1) zero_media\<rparr>)"
  (is "_ = Inr (data\<lparr>media_ready := ?s # ?zs\<rparr>)")
proof -
  from assms(1,2,3) obtain data' where W: "papplPrinterWebMedia X data letter_form = Inr data'"
    using papplPrinterWebMedia_total [of data X letter_form] by auto
  note frame = papplPrinterWebMedia_frame [OF W]
  have "media_ready data' = ?s # ?zs"
  proof (rule nth_equalityI)
    show "length (media_ready data') = length (?s # ?zs)"
      using frame assms(3) by simp
  next
    fix j assume "j < length (media_ready data')"
    with frame have j: "j < length (media_ready data)" by simp
    note slot = papplPrinterWebMedia_slot [OF W j]
    consider "j = 0" | "j = 1" | "2 \<le> j" by linarith
    then show "media_ready data' ! j = (?s # ?zs) ! j"
    proof cases
      case 1
      have "set_ready_media X data letter_form 0 ''na_letter_8.5x11in'' zero_media = ?s"
        using assms(1,4,5,6,7)
        by (simp add: set_ready_media_def set_ready_size_def ready_names letter_form_def
            strlcpy_def)
      with slot 1 assms(2) show ?thesis
        by (simp add: ready_names letter_form_def)
    next
      case 2
      with slot assms(2) j show ?thesis
        by (simp add: ready_names letter_form_def)
    next
      case 3
      with slot assms(2) j show ?thesis
        by (simp add: nth_Cons')
    qed
  qed
  with frame have "data' = data\<lparr>media_ready := ?s # ?zs\<rparr>" by metis
  with W show ?thesis by simp
qed

theorem ready_media_letter_witness:
  "papplPrinterWebMedia example_externals two_trays letter_form =
     Inr (two_trays\<lparr>media_ready := [letter_ready, zero_media]\<rparr>)"
proof -
  have h1: "source two_trays = [''tray-1'', ''tray-2'']"
    and h2: "num_source two_trays = 2"
    and h3: "2 \<le> length (media_ready two_trays)"
    by (simp_all add: two_trays_def)
  have h4: "pwgMediaForPWG example_externals ''na_letter_8.5x11in'' =
      Some \<lparr>ppd = ''Letter'', width = 21590, length_pwg = 27940\<rparr>"
    by (simp add: example_externals_def example_sizes_def)
  have h5: "19 \<le> media_str_size example_externals"
    by (simp add: example_externals_def)
  show ?thesis
    using ready_media_letter [OF h1 h2 h3 h4 _ _ h5]
    by (simp add: two_trays_def letter_ready_def zero_media_def)
qed

text \<open>
  The claim as stated fails: the slot of \<open>tray-1\<close> is 21590 wide and 27940 long, not
  2550 and 3300.
\<close>

theorem ready_media_letter_counterexample:
  "papplPrinterWebMedia example_externals two_trays letter_form =
     Inr (two_trays\<lparr>media_ready := [letter_ready, zero_media]\<rparr>) \<and>
   size_width (media_ready (two_trays\<lparr>media_ready := [letter_ready, zero_media]\<rparr>) ! 0) \<noteq> 2550 \<and>
   size_length (media_ready (two_trays\<lparr>media_ready := [letter_ready, zero_media]\<rparr>) ! 0) \<noteq> 3300"
  by code_simp

text \<open>
  The magnitude in a \<open>double\<close> that \<open>atof\<close> returns, or a product with it, is not
  negative.
\<close>

lemma scan_number_nonneg:
  "0 \<le> base \<Longrightarrow> 0 \<le> acc \<Longrightarrow> scan_number base cs acc n = (v, k, r) \<Longrightarrow> 0 \<le> v"
proof (induction cs arbitrary: acc n)
  case Nil
  then show ?case by simp
next
  case (Cons c cs)
  show ?case
  proof (cases "if base = 16 then isxdigit c else isdigit c")
    case True
    with Cons.prems(3)
    have "scan_number base cs (acc * base + int (xdigit_val c)) (Suc n) = (v, k, r)"
      by (cases "base = 16") simp_all
    moreover have "0 \<le> acc * base + int (xdigit_val c)"
      using Cons.prems(1,2) by simp
    ultimately show ?thesis
      using Cons.IH Cons.prems(1) by blast
  next
    case False
    with Cons.prems show ?thesis by simp
  qed
qed

lemma scan_mantissa_nonneg:
  assumes "0 < base" and "scan_mantissa base u = Some (m, r)"
  shows "0 \<le> m"
proof -
  obtain ip n r0 where a: "scan_number base u 0 0 = (ip, n, r0)"
    by (cases "scan_number base u 0 0") auto
  obtain fp k r1 where b:
    "(case r0 of
        [] \<Rightarrow> (0, 0, r0)
      | c # cs \<Rightarrow> if c = CHR ''.'' then scan_number base cs 0 0 else (0, 0, r0)) = (fp, k, r1)"
    by (cases "case r0 of
        [] \<Rightarrow> (0, 0, r0)
      | c # cs \<Rightarrow> if c = CHR ''.'' then scan_number base cs 0 0 else (0::int, 0::nat, r0)") auto
  have ip: "0 \<le> ip"
    using scan_number_nonneg [OF _ _ a] assms(1) by simp
  have fp: "0 \<le> fp"
  proof (cases r0)
    case Nil
    with b show ?thesis by simp
  next
    case (Cons c cs)
    show ?thesis
    proof (cases "c = CHR ''.''")
      case True
      with b Cons have "scan_number base cs 0 0 = (fp, k, r1)" by simp
      from scan_number_nonneg [OF _ _ this] assms(1) show ?thesis by simp
    next
      case False
      with b Cons show ?thesis by simp
    qed
  qed
  from assms(2) have "m = of_int ip + of_int fp / of_int base ^ k"
    by (simp add: scan_mantissa_def a b split: if_splits)
  with ip fp assms(1) show ?thesis by simp
qed

lemma scale_by_nonneg: "0 \<le> base \<Longrightarrow> 0 \<le> m \<Longrightarrow> 0 \<le> scale_by base m e"
  by (simp add: scale_by_def)

lemma round_half_even_nonneg: "0 \<le> x \<Longrightarrow> 0 \<le> round_half_even x"
  by (simp add: round_half_even_def Let_def)

lemma round_to_double_nonneg:
  "0 \<le> a \<Longrightarrow> round_to_double neg a = Finite s v \<Longrightarrow> 0 \<le> v"
  by (auto simp: round_to_double_def Let_def scale_by_nonneg round_half_even_nonneg
      split: if_splits)

lemma atof_nonneg: "atof s = Finite neg v \<Longrightarrow> 0 \<le> v"
proof -
  assume a: "atof s = Finite neg v"
  obtain sg u where su: "scan_sign (dropWhile isspace s) = (sg, u)"
    by (cases "scan_sign (dropWhile isspace s)") auto
  have hex: "scan_mantissa 16 w = Some (m, r) \<Longrightarrow>
      round_to_double sg (scale_by 2 m (scan_exponent CHR ''p'' r)) = Finite neg v \<Longrightarrow> 0 \<le> v"
    for w m r
    using scan_mantissa_nonneg [of 16 w m r]
      round_to_double_nonneg [of "scale_by 2 m (scan_exponent CHR ''p'' r)" sg neg v]
    by (simp add: scale_by_nonneg)
  have dec: "scan_mantissa 10 w = Some (m, r) \<Longrightarrow>
      round_to_double sg (scale_by 10 m (scan_exponent CHR ''e'' r)) = Finite neg v \<Longrightarrow> 0 \<le> v"
    for w m r
    using scan_mantissa_nonneg [of 10 w m r]
      round_to_double_nonneg [of "scale_by 10 m (scan_exponent CHR ''e'' r)" sg neg v]
    by (simp add: scale_by_nonneg)
  from a show ?thesis
    by (auto simp: atof_def su dest: hex dec split: if_splits option.splits)
qed

lemma product_nonneg:
  "0 \<le> c \<Longrightarrow> double_mul (Finite False c) (atof s) = Finite neg v \<Longrightarrow> 0 \<le> v"
proof (cases "atof s")
  case (Finite t b)
  assume "0 \<le> c" and "double_mul (Finite False c) (atof s) = Finite neg v"
  with Finite atof_nonneg [OF Finite] round_to_double_nonneg [of "c * b" "False \<noteq> t" neg v]
  show ?thesis by simp
next
  case (Infinite t)
  assume "double_mul (Finite False c) (atof s) = Finite neg v"
  with Infinite show ?thesis by (simp split: if_splits)
next
  case NaN
  assume "double_mul (Finite False c) (atof s) = Finite neg v"
  with NaN show ?thesis by simp
qed

text \<open>
  The cast of a number whose magnitude is not negative: the fraction is dropped when the
  magnitude is below \<open>2 ^ 31\<close>, and the least \<open>int\<close> is the one more result that C
  defines.
\<close>

lemma int_of_double_truncates:
  assumes "0 \<le> v"
  shows "int_of_double u (Finite neg v) =
     (if v < 2 ^ 31 then (if neg then - \<lfloor>v\<rfloor> else \<lfloor>v\<rfloor>)
      else if neg \<and> v < 2 ^ 31 + 1 then - (2 ^ 31)
      else sint (u (Finite neg v)))"
proof -
  have f0: "0 \<le> \<lfloor>v\<rfloor>" using assms by simp
  have p: "(0::int) < 2 ^ 31" by simp
  from f0 p have f1: "- \<lfloor>v\<rfloor> < 2 ^ 31" "- (2 ^ 31) \<le> \<lfloor>v\<rfloor>"
    by linarith+
  have lt: "(\<lfloor>v\<rfloor> < 2 ^ 31) = (v < 2 ^ 31)"
    using floor_less_iff [of v "2 ^ 31"] by simp
  have le: "(\<lfloor>v\<rfloor> \<le> 2 ^ 31) = (v < 2 ^ 31 + 1)"
    using floor_less_iff [of v "2 ^ 31 + 1"] by simp
  show ?thesis
  proof (cases "v < 2 ^ 31")
    case True
    with lt have "\<lfloor>v\<rfloor> < 2 ^ 31" by simp
    with True f1 show ?thesis
      by (simp add: int_of_double_def Let_def)
  next
    case False
    with lt have ge: "2 ^ 31 \<le> \<lfloor>v\<rfloor>" by simp
    show ?thesis
    proof (cases "neg \<and> v < 2 ^ 31 + 1")
      case True
      with le have "\<lfloor>v\<rfloor> \<le> 2 ^ 31" by blast
      with ge have "\<lfloor>v\<rfloor> = 2 ^ 31" by linarith
      with True False show ?thesis
        by (simp add: int_of_double_def Let_def)
    next
      case no: False
      with le ge False show ?thesis
        by (auto simp: int_of_double_def Let_def)
    qed
  qed
qed

text \<open>
  Claim C5, amended. When \<open>ready<i>-size\<close> is \<open>custom\<close> and both \<open>ready<i>-custom-width\<close>
  and \<open>ready<i>-custom-length\<close> are present, the width and the length of the slot are
  \<open>(int)(2540.0 * atof(...))\<close>: the text is read as the nearest \<open>double\<close>, the product
  with 2540 is rounded to the nearest \<open>double\<close>, and the cast drops the fraction of that
  product; the result is not rounded to the nearest unit. This is the result for a
  product below \<open>2 ^ 31\<close> in magnitude; a product of minus \<open>2 ^ 31\<close> and a fraction gives
  the least \<open>int\<close>, and for any other product, an infinity or a NaN, C does not define
  the cast. For the width 4.00 and the length 6.00 the products are 10160 and 15240, and
  so are the width and the length of the slot.
\<close>

theorem custom_size_truncated:
  assumes "papplPrinterWebMedia X data form = Inr data'"
    and "int i < num_source data" and "i < length (media_ready data)"
    and "form (ready_name i ''-size'') = Some ''custom''"
    and "form (ready_name i ''-custom-width'') = Some custom_width"
    and "form (ready_name i ''-custom-length'') = Some custom_length"
  shows "size_width (media_ready data' ! i) =
           (case double_mul (Finite False 2540) (atof custom_width) of
              Finite neg v \<Rightarrow>
                if v < 2 ^ 31 then (if neg then - \<lfloor>v\<rfloor> else \<lfloor>v\<rfloor>)
                else if neg \<and> v < 2 ^ 31 + 1 then - (2 ^ 31)
                else sint (undefined_int_cast X (Finite neg v))
            | Infinite neg \<Rightarrow> sint (undefined_int_cast X (Infinite neg))
            | NaN \<Rightarrow> sint (undefined_int_cast X NaN)) \<and>
         size_length (media_ready data' ! i) =
           (case double_mul (Finite False 2540) (atof custom_length) of
              Finite neg v \<Rightarrow>
                if v < 2 ^ 31 then (if neg then - \<lfloor>v\<rfloor> else \<lfloor>v\<rfloor>)
                else if neg \<and> v < 2 ^ 31 + 1 then - (2 ^ 31)
                else sint (undefined_int_cast X (Finite neg v))
            | Infinite neg \<Rightarrow> sint (undefined_int_cast X (Infinite neg))
            | NaN \<Rightarrow> sint (undefined_int_cast X NaN))"
proof -
  have cast: "int_of_double (undefined_int_cast X) (double_mul (Finite False 2540) (atof s)) =
      (case double_mul (Finite False 2540) (atof s) of
         Finite neg v \<Rightarrow>
           if v < 2 ^ 31 then (if neg then - \<lfloor>v\<rfloor> else \<lfloor>v\<rfloor>)
           else if neg \<and> v < 2 ^ 31 + 1 then - (2 ^ 31)
           else sint (undefined_int_cast X (Finite neg v))
       | Infinite neg \<Rightarrow> sint (undefined_int_cast X (Infinite neg))
       | NaN \<Rightarrow> sint (undefined_int_cast X NaN))" for s
  proof (cases "double_mul (Finite False 2540) (atof s)")
    case (Finite neg v)
    from product_nonneg [OF _ Finite] have "0 \<le> v" by simp
    from int_of_double_truncates [OF this] Finite show ?thesis by simp
  next
    case (Infinite neg)
    then show ?thesis by (simp add: int_of_double_def)
  next
    case NaN
    then show ?thesis by (simp add: int_of_double_def)
  qed
  have "media_ready data' ! i = set_ready_media X data form i ''custom'' zero_media"
    using papplPrinterWebMedia_slot [OF assms(1,3)] assms(2,4) by simp
  then have "size_width (media_ready data' ! i) =
        int_of_double (undefined_int_cast X) (double_mul (Finite False 2540) (atof custom_width))"
    and "size_length (media_ready data' ! i) =
        int_of_double (undefined_int_cast X) (double_mul (Finite False 2540) (atof custom_length))"
    using assms(5,6)
    by (simp_all add: set_ready_media_def set_ready_size_def Let_def split: option.splits)
  then show ?thesis
    by (simp only: cast)
qed

theorem custom_size_truncated_witness:
  "papplPrinterWebMedia example_externals two_trays (custom_form ''4.00'' ''6.00'') =
     Inr (two_trays\<lparr>media_ready :=
       [letter_ready\<lparr>size_name := ''custom_tray-1_4.00x6.00in'', size_width := 10160,
          size_length := 15240\<rparr>, zero_media]\<rparr>) \<and>
   double_mul (Finite False 2540) (atof ''4.00'') = Finite False 10160 \<and>
   double_mul (Finite False 2540) (atof ''6.00'') = Finite False 15240 \<and>
   size_width (media_ready (two_trays\<lparr>media_ready :=
       [letter_ready\<lparr>size_name := ''custom_tray-1_4.00x6.00in'', size_width := 10160,
          size_length := 15240\<rparr>, zero_media]\<rparr>) ! 0) = \<lfloor>10160 :: rat\<rfloor> \<and>
   size_length (media_ready (two_trays\<lparr>media_ready :=
       [letter_ready\<lparr>size_name := ''custom_tray-1_4.00x6.00in'', size_width := 10160,
          size_length := 15240\<rparr>, zero_media]\<rparr>) ! 0) = \<lfloor>15240 :: rat\<rfloor>"
proof -
  let ?d = "two_trays\<lparr>media_ready :=
       [letter_ready\<lparr>size_name := ''custom_tray-1_4.00x6.00in'', size_width := 10160,
          size_length := 15240\<rparr>, zero_media]\<rparr>"
  let ?f = "custom_form ''4.00'' ''6.00''"
  have W: "papplPrinterWebMedia example_externals two_trays ?f = Inr ?d"
    by code_simp
  have h: "int 0 < num_source two_trays" "0 < length (media_ready two_trays)"
    by (simp_all add: two_trays_def)
  have k: "?f (ready_name 0 ''-size'') = Some ''custom''"
    "?f (ready_name 0 ''-custom-width'') = Some ''4.00''"
    "?f (ready_name 0 ''-custom-length'') = Some ''6.00''"
    by (simp_all add: ready_names custom_form_def)
  have p: "double_mul (Finite False 2540) (atof ''4.00'') = Finite False 10160"
    "double_mul (Finite False 2540) (atof ''6.00'') = Finite False 15240"
    by code_simp+
  show ?thesis
    using custom_size_truncated [OF W h k] W by (simp add: p)
qed

text \<open>
  The claim as stated fails for a width of 0.02 inch: 2540 times 0.02 is 50.8, the slot is
  50 wide, and the nearest unit is 51.
\<close>

theorem custom_size_counterexample:
  "papplPrinterWebMedia example_externals two_trays (custom_form ''0.02'' ''6.00'') =
     Inr (two_trays\<lparr>media_ready :=
       [letter_ready\<lparr>size_name := ''custom_tray-1_0.02x6.00in'', size_width := 50,
          size_length := 15240\<rparr>, zero_media]\<rparr>) \<and>
   atof ''0.02'' = Finite False (5764607523034235 / 288230376151711744) \<and>
   round (2540 * (5764607523034235 / 288230376151711744) :: rat) = 51 \<and>
   round (2540 * (2 / 100) :: rat) = 51 \<and>
   size_width (media_ready (two_trays\<lparr>media_ready :=
       [letter_ready\<lparr>size_name := ''custom_tray-1_0.02x6.00in'', size_width := 50,
          size_length := 15240\<rparr>, zero_media]\<rparr>) ! 0) \<noteq> round (2540 * (2 / 100) :: rat)"
proof -
  have a: "atof ''0.02'' = Finite False (5764607523034235 / 288230376151711744)"
    by code_simp
  have W: "papplPrinterWebMedia example_externals two_trays (custom_form ''0.02'' ''6.00'') =
     Inr (two_trays\<lparr>media_ready :=
       [letter_ready\<lparr>size_name := ''custom_tray-1_0.02x6.00in'', size_width := 50,
          size_length := 15240\<rparr>, zero_media]\<rparr>)"
    by code_simp
  have r: "round (2540 * (5764607523034235 / 288230376151711744) :: rat) = 51"
    "round (2540 * (2 / 100) :: rat) = 51"
    by (simp_all add: round_def floor_eq_iff)
  show ?thesis
    using r by (simp add: W a)
qed

text \<open>
  Further values of the two casts: a decimal text that is not a \<open>double\<close> and whose
  nearest \<open>double\<close> is 4, a hexadecimal text, and a top offset of 0.29, whose product
  with 100 is just below 29. A width of a thousand million inches has a product beyond
  the range of \<open>int\<close>, for which the slot holds what the instance gives.
\<close>

lemma double_cast_examples:
  "papplPrinterWebMedia example_externals two_trays
     ((custom_form ''3.9999999999999999'' ''0x10'')(''ready0-top-offset'' \<mapsto> ''0.29'')) =
     Inr (two_trays\<lparr>media_ready :=
       [letter_ready\<lparr>size_name := ''custom_tray-1_4.00x16.00in'', size_width := 10160,
          size_length := 40640, top_offset := 28\<rparr>, zero_media]\<rparr>)"
  "papplPrinterWebMedia example_externals two_trays (custom_form ''1e9'' ''-0.02'') =
     Inr (two_trays\<lparr>media_ready :=
       [letter_ready\<lparr>size_name := ''custom_tray-1_1000000000.00x-0.02in'',
          size_width := - 2147483648, size_length := - 50\<rparr>, zero_media]\<rparr>)"
  by code_simp+

text \<open>
  Claim C6, amended. After the ready media are decoded, the four margins of every slot are
  either all 0 or the fixed pair of the driver data, bottom and top \<open>bottom_top\<close>, left
  and right \<open>left_right\<close>. They are the fixed pair when \<open>ready<i>-size\<close> is present and
  \<open>ready<i>-borderless\<close> is absent. They are all 0 when \<open>ready<i>-borderless\<close> is
  present, and also when \<open>ready<i>-size\<close> is absent, since the slot is then skipped
  before its margins are set.
\<close>

theorem ready_media_margins:
  assumes "papplPrinterWebMedia X data form = Inr data'"
    and "i < length (media_ready data)"
  shows "(bottom_margin (media_ready data' ! i), top_margin (media_ready data' ! i),
          left_margin (media_ready data' ! i), right_margin (media_ready data' ! i)) =
         (if int i < num_source data \<and> form (ready_name i ''-size'') \<noteq> None \<and>
             form (ready_name i ''-borderless'') = None
          then (bottom_top data, bottom_top data, left_right data, left_right data)
          else (0, 0, 0, 0))"
  using papplPrinterWebMedia_slot [OF assms]
  by (auto simp: set_ready_media_def Let_def zero_media_def split: option.splits)

theorem ready_media_margins_witness:
  "papplPrinterWebMedia example_externals two_trays letter_form =
     Inr (two_trays\<lparr>media_ready := [letter_ready, zero_media]\<rparr>) \<and>
   (bottom_margin letter_ready, top_margin letter_ready,
    left_margin letter_ready, right_margin letter_ready) = (1270, 1270, 635, 635) \<and>
   (bottom_margin zero_media, top_margin zero_media,
    left_margin zero_media, right_margin zero_media) = (0, 0, 0, 0)"
proof -
  have W: "papplPrinterWebMedia example_externals two_trays letter_form =
     Inr (two_trays\<lparr>media_ready := [letter_ready, zero_media]\<rparr>)"
    by code_simp
  have h: "0 < length (media_ready two_trays)" "1 < length (media_ready two_trays)"
    by (simp_all add: two_trays_def)
  show ?thesis
    using ready_media_margins [OF W h(1)] ready_media_margins [OF W h(2)] W
    by (simp add: ready_names letter_form_def two_trays_def)
qed

text \<open>
  The claim as stated fails for the slot of \<open>tray-2\<close> in the same example: the form has no
  \<open>ready1-borderless\<close>, and the margins of the slot are 0, not the fixed pair 1270 and
  635.
\<close>

theorem ready_media_margins_counterexample:
  "letter_form (ready_name 1 ''-borderless'') = None \<and>
   papplPrinterWebMedia example_externals two_trays letter_form =
     Inr (two_trays\<lparr>media_ready := [letter_ready, zero_media]\<rparr>) \<and>
   bottom_margin (media_ready (two_trays\<lparr>media_ready := [letter_ready, zero_media]\<rparr>) ! 1) = 0 \<and>
   bottom_top (two_trays\<lparr>media_ready := [letter_ready, zero_media]\<rparr>) = 1270 \<and>
   left_margin (media_ready (two_trays\<lparr>media_ready := [letter_ready, zero_media]\<rparr>) ! 1) = 0 \<and>
   left_right (two_trays\<lparr>media_ready := [letter_ready, zero_media]\<rparr>) = 635"
  by code_simp

end
